theory Spec2Isabelle
  imports Complex_Main "HOL-Library.Char_ord" "HOL-Library.List_Lexorder"
begin

section \<open>JavaScript numbers\<close>

text \<open>
  The agent of \<^verbatim>\<open>src/agent.ts\<close> computes with JavaScript numbers. A number is
  modelled as an exact rational, one of the two infinities, or NaN. The rounding of
  IEEE doubles, overflow and the sign of zero are left out: a finite result is the
  exact one. What is kept is what the code's comparisons depend on: an arithmetic
  operation with \<^verbatim>\<open>undefined\<close> or NaN gives NaN, a division by zero gives an
  infinity or NaN, and every comparison with NaN is false. Where a product or a
  quotient of doubles rounds (\<^verbatim>\<open>0.72 * 1.5\<close> is the double \<^verbatim>\<open>1.08\<close>), a
  comparison at a threshold can come out differently in the code; the evaluations
  below use values whose comparisons do not depend on the rounding.
\<close>

datatype jsnum = Finite rat | PosInfinity | NegInfinity | NaN

fun js_neg :: "jsnum \<Rightarrow> jsnum" where
  "js_neg (Finite a) = Finite (- a)"
| "js_neg PosInfinity = NegInfinity"
| "js_neg NegInfinity = PosInfinity"
| "js_neg NaN = NaN"

fun js_add :: "jsnum \<Rightarrow> jsnum \<Rightarrow> jsnum" where
  "js_add NaN y = NaN"
| "js_add x NaN = NaN"
| "js_add (Finite a) (Finite b) = Finite (a + b)"
| "js_add PosInfinity NegInfinity = NaN"
| "js_add NegInfinity PosInfinity = NaN"
| "js_add PosInfinity y = PosInfinity"
| "js_add x PosInfinity = PosInfinity"
| "js_add NegInfinity y = NegInfinity"
| "js_add x NegInfinity = NegInfinity"

definition js_sub :: "jsnum \<Rightarrow> jsnum \<Rightarrow> jsnum" where
  "js_sub x y = js_add x (js_neg y)"

fun js_mul :: "jsnum \<Rightarrow> jsnum \<Rightarrow> jsnum" where
  "js_mul NaN y = NaN"
| "js_mul x NaN = NaN"
| "js_mul (Finite a) (Finite b) = Finite (a * b)"
| "js_mul (Finite a) y =
     (if a = 0 then NaN else if (0 < a) = (y = PosInfinity) then PosInfinity else NegInfinity)"
| "js_mul x (Finite b) =
     (if b = 0 then NaN else if (0 < b) = (x = PosInfinity) then PosInfinity else NegInfinity)"
| "js_mul x y = (if x = y then PosInfinity else NegInfinity)"

fun js_div :: "jsnum \<Rightarrow> jsnum \<Rightarrow> jsnum" where
  "js_div NaN y = NaN"
| "js_div x NaN = NaN"
| "js_div (Finite a) (Finite b) =
     (if b \<noteq> 0 then Finite (a / b)
      else if 0 < a then PosInfinity else if a < 0 then NegInfinity else NaN)"
| "js_div (Finite a) y = Finite 0"
| "js_div x (Finite b) = (if 0 \<le> b then x else js_neg x)"
| "js_div x y = NaN"

fun js_gt :: "jsnum \<Rightarrow> jsnum \<Rightarrow> bool" where
  "js_gt (Finite a) (Finite b) = (b < a)"
| "js_gt (Finite a) NegInfinity = True"
| "js_gt PosInfinity (Finite b) = True"
| "js_gt PosInfinity NegInfinity = True"
| "js_gt x y = False"

text \<open>
  \<^verbatim>\<open>sum + v\<close> for a number \<^verbatim>\<open>sum\<close> and the value \<^verbatim>\<open>v\<close> read from a
  property that holds a number (\<open>Some\<close>) or does not exist (\<open>None\<close>, the value
  \<^verbatim>\<open>undefined\<close>, which \<^verbatim>\<open>+\<close> converts to NaN).
\<close>

fun js_plus :: "jsnum \<Rightarrow> rat option \<Rightarrow> jsnum" where
  "js_plus s None = NaN"
| "js_plus s (Some v) = js_add s (Finite v)"

subsection \<open>Number.prototype.toFixed\<close>

fun nat_digits :: "nat \<Rightarrow> string" where
  "nat_digits n =
     (if n < 10 then [char_of (48 + n)]
      else nat_digits (n div 10) @ [char_of (48 + n mod 10)])"

declare nat_digits.simps [simp del]

text \<open>
  \<^verbatim>\<open>x.toFixed(f)\<close> for \<open>0 \<le> x\<close>: the integer \<open>n\<close> with \<open>n / 10^f\<close> nearest to
  \<open>x\<close> (the larger one of two), printed with \<open>f\<close> digits after the point. The
  digits are those of the exact rational. The code rounds the double that it has
  computed, which can differ in the last digit when that double is not the exact
  value, and it switches to exponent notation from \<open>10^21\<close> on; neither is
  modelled, and the evaluations below are at values where the digits agree.
\<close>

definition toFixed_rat :: "nat \<Rightarrow> rat \<Rightarrow> string" where
  "toFixed_rat f x =
     (let n = nat \<lfloor>x * 10 ^ f + 1 / 2\<rfloor>;
          m = nat_digits n;
          m = (if f \<noteq> 0 \<and> length m \<le> f
               then replicate (f + 1 - length m) CHR ''0'' @ m else m);
          k = length m
      in if f \<noteq> 0 then take (k - f) m @ ''.'' @ drop (k - f) m else m)"

fun toFixed :: "nat \<Rightarrow> jsnum \<Rightarrow> string" where
  "toFixed f NaN = ''NaN''"
| "toFixed f PosInfinity = ''Infinity''"
| "toFixed f NegInfinity = ''-Infinity''"
| "toFixed f (Finite x) =
     (if x < 0 then ''-'' @ toFixed_rat f (- x) else toFixed_rat f x)"

section \<open>JSON values\<close>

text \<open>
  The values of type \<^verbatim>\<open>any\<close> that the agent handles (the parsed model response,
  the \<^verbatim>\<open>previousValue\<close> and \<^verbatim>\<open>newValue\<close> snapshots of a change) are JSON
  values. An object is the list of its properties, each name once.
\<close>

datatype json =
    JNull
  | JBool bool
  | JNum rat
  | JStr string
  | JArr "json list"
  | JObj "(string \<times> json) list"

text \<open>
  Reading property \<open>k\<close> of a value that is not \<^verbatim>\<open>null\<close>; \<open>None\<close> is
  \<^verbatim>\<open>undefined\<close>. The property names read by the agent (\<^verbatim>\<open>riskLevel\<close>,
  \<^verbatim>\<open>rolloutPercentage\<close>, ...) are own properties of objects only. On
  \<^verbatim>\<open>null\<close> the plain read \<^verbatim>\<open>v.k\<close> throws and the optional read
  \<^verbatim>\<open>v?.k\<close> gives \<^verbatim>\<open>undefined\<close>: the callers below distinguish the two.
\<close>

fun get :: "json \<Rightarrow> string \<Rightarrow> json option" where
  "get (JObj kvs) k = map_of kvs k"
| "get v k = None"

fun truthy :: "json \<Rightarrow> bool" where
  "truthy JNull = False"
| "truthy (JBool b) = b"
| "truthy (JNum r) = (r \<noteq> 0)"
| "truthy (JStr s) = (s \<noteq> [])"
| "truthy (JArr xs) = True"
| "truthy (JObj kvs) = True"

text \<open>\<^verbatim>\<open>v || d\<close>, for a value \<open>v\<close> that may be \<^verbatim>\<open>undefined\<close>.\<close>

fun js_or :: "json option \<Rightarrow> json \<Rightarrow> json" where
  "js_or None d = d"
| "js_or (Some v) d = (if truthy v then v else d)"

text \<open>\<^verbatim>\<open>s || d\<close> for strings: the empty string is falsy.\<close>

definition str_or :: "string \<Rightarrow> string \<Rightarrow> string" where
  "str_or s d = (if s \<noteq> [] then s else d)"

text \<open>A value inside a template literal: \<^verbatim>\<open>undefined\<close> prints as such.\<close>

fun template :: "string option \<Rightarrow> string" where
  "template None = ''undefined''"
| "template (Some s) = s"

section \<open>The tables of the Durable Object\<close>

text \<open>
  \<^verbatim>\<open>initializeDatabase\<close> creates the tables; each is a list of rows in insertion
  order. A row object returned by \<^verbatim>\<open>SELECT *\<close> has one property per column,
  named as in \<^verbatim>\<open>CREATE TABLE\<close>, that is in snake case
  (\<^verbatim>\<open>error_rate\<close>, \<^verbatim>\<open>flag_name\<close>, \<^verbatim>\<open>detected_at\<close>); the type
  argument of \<^verbatim>\<open>exec<T>\<close> renames nothing. The readers of rows in
  \<^verbatim>\<open>processChat\<close>, \<^verbatim>\<open>analyzeFlag\<close> and the user interface allow for this
  (\<^verbatim>\<open>a.flag_name || a.flagName\<close>, \<^verbatim>\<open>flag.target_environment || flag.targetEnvironment\<close>).
\<close>

text \<open>
  Tables \<^verbatim>\<open>impact_metrics\<close> and \<^verbatim>\<open>predictions\<close> both have a column
  \<^verbatim>\<open>flag_id\<close>. Of \<^verbatim>\<open>impact_metrics\<close> the autoincrement key, which nothing
  reads, is left out.
\<close>

record keyed_row =
  flag_id :: string

record metrics_row = keyed_row +
  timestamp :: string
  error_rate :: rat
  latency_p50 :: rat
  latency_p99 :: rat
  request_count :: int
  conversion_rate :: rat
  user_satisfaction_score :: rat

text \<open>
  The number that \<^verbatim>\<open>m.p\<close> reads from a row \<open>m\<close> of \<^verbatim>\<open>impact_metrics\<close>, for a
  property name \<open>p\<close> other than the two text columns: the value of the numeric
  column called \<open>p\<close>, and \<open>None\<close> (\<^verbatim>\<open>undefined\<close>) when the row has no such
  property.
\<close>

definition metrics_prop :: "metrics_row \<Rightarrow> string \<Rightarrow> rat option" where
  "metrics_prop m p =
     map_of [(''error_rate'', error_rate m),
             (''latency_p50'', latency_p50 m),
             (''latency_p99'', latency_p99 m),
             (''request_count'', of_int (request_count m)),
             (''conversion_rate'', conversion_rate m),
             (''user_satisfaction_score'', user_satisfaction_score m)] p"

text \<open>
  What a column holds. SQLite is dynamically typed: a column declared
  \<^verbatim>\<open>TEXT\<close> or \<^verbatim>\<open>REAL\<close> holds a text, a number or \<^verbatim>\<open>NULL\<close>, whatever
  the insert leaves there after the conversions of the column's affinity.
\<close>

datatype sql_value = SqlNull | SqlNum rat | SqlText string

text \<open>
  Table \<^verbatim>\<open>predictions\<close>, with \<^verbatim>\<open>flag_id\<close> as primary key. The columns
  \<^verbatim>\<open>recommendations\<close>, \<^verbatim>\<open>reasoning\<close> and \<^verbatim>\<open>confidence\<close> are the fields
  \<open>recommendations_text\<close>, \<open>reasoning_text\<close> and \<open>confidence_value\<close>. The columns
  \<^verbatim>\<open>predicted_impact\<close> and \<^verbatim>\<open>recommendations\<close> receive the text of
  \<^verbatim>\<open>JSON.stringify\<close>; \<^verbatim>\<open>risk_level\<close>, \<^verbatim>\<open>risk_score\<close>,
  \<^verbatim>\<open>reasoning\<close> and \<^verbatim>\<open>confidence\<close> receive the value of the prediction's field
  as it is.
\<close>

record prediction_row = keyed_row +
  flag_name :: string
  risk_level :: sql_value
  risk_score :: sql_value
  predicted_impact :: string
  recommendations_text :: string
  reasoning_text :: sql_value
  confidence_value :: sql_value
  generated_at :: string

text \<open>Table \<^verbatim>\<open>feature_flags\<close>; column \<^verbatim>\<open>id\<close> is the field \<open>row_id\<close>.\<close>

record flag_row =
  row_id :: string
  name :: string
  description :: string
  enabled :: bool
  rollout_percentage :: rat
  target_environment :: string
  created_at :: string
  updated_at :: string
  tags :: string
  owner :: string

text \<open>The row object of a flag, as \<^verbatim>\<open>analyzeFlag\<close> puts it into \<^verbatim>\<open>newValue\<close>.\<close>

definition flag_object :: "flag_row \<Rightarrow> json" where
  "flag_object f =
     JObj [(''id'', JStr (row_id f)),
           (''name'', JStr (name f)),
           (''description'', JStr (description f)),
           (''enabled'', JNum (if enabled f then 1 else 0)),
           (''rollout_percentage'', JNum (rollout_percentage f)),
           (''target_environment'', JStr (target_environment f)),
           (''created_at'', JStr (created_at f)),
           (''updated_at'', JStr (updated_at f)),
           (''tags'', JStr (tags f)),
           (''owner'', JStr (owner f))]"

text \<open>
  The interfaces of \<^verbatim>\<open>types.ts\<close>. Tables \<^verbatim>\<open>flag_changes\<close> and
  \<^verbatim>\<open>anomalies\<close> hold one column per field (the structured fields as their JSON
  text) and receive values of the declared types, so their rows are kept as these
  records. The field
  \<^verbatim>\<open>id\<close> is \<open>change_id\<close> and \<open>anomaly_id\<close>, the field \<^verbatim>\<open>type\<close> is
  \<open>anomaly_type\<close>.
\<close>

record flag_ref =
  flagId :: string
  flagName :: string

record FlagChange = flag_ref +
  change_id :: string
  changeType :: string
  previousValue :: json
  newValue :: json
  changedBy :: string
  changedAt :: string
  environment :: string

text \<open>
  The fields that \<^verbatim>\<open>generatePrediction\<close> copies from the parsed response have
  type \<^verbatim>\<open>any\<close> there: they are JSON values.
\<close>

record ImpactPrediction = flag_ref +
  riskLevel :: json
  riskScore :: json
  predictedImpact :: json
  recommendations :: json
  reasoning :: json
  confidence :: json
  generatedAt :: string

datatype anomaly_kind = error_spike | latency_spike | conversion_drop | rollback_recommended

datatype severity_level = warning | critical

record Anomaly = flag_ref +
  anomaly_id :: string
  anomaly_type :: anomaly_kind
  severity :: severity_level
  detectedAt :: string
  metrics :: metrics_row
  message :: string
  resolved :: bool

text \<open>The messages handed to \<^verbatim>\<open>broadcast\<close> by the operations modelled here.\<close>

datatype event =
    flag_changed FlagChange ImpactPrediction
  | anomaly_detected Anomaly

record state =
  feature_flags :: "flag_row list"
  flag_changes :: "FlagChange list"
  impact_metrics :: "metrics_row list"
  predictions :: "prediction_row list"
  anomalies :: "Anomaly list"
  broadcasts :: "event list"

text \<open>
  The text that \<^verbatim>\<open>c.p\<close> reads from a row \<open>c\<close> of \<^verbatim>\<open>flag_changes\<close>, for the
  name \<open>p\<close> of a text column that is not a JSON snapshot; \<open>None\<close> when the row has no
  property \<open>p\<close>.
\<close>

definition change_prop :: "FlagChange \<Rightarrow> string \<Rightarrow> string option" where
  "change_prop c p =
     map_of [(''id'', change_id c),
             (''flag_id'', flagId c),
             (''flag_name'', flagName c),
             (''change_type'', changeType c),
             (''changed_by'', changedBy c),
             (''changed_at'', changedAt c),
             (''environment'', environment c)] p"

subsection \<open>Queries\<close>

text \<open>
  \<^verbatim>\<open>ORDER BY key DESC\<close> on a text column: SQLite compares the strings byte by
  byte, which is the lexicographic order of \<^typ>\<open>string\<close>. SQL leaves the order of
  rows with equal keys open; here they stay in insertion order.
\<close>

definition order_by_desc :: "('a \<Rightarrow> string) \<Rightarrow> 'a list \<Rightarrow> 'a list" where
  "order_by_desc key rows = rev (sort_key key (rev rows))"

definition select_metrics :: "state \<Rightarrow> string \<Rightarrow> nat \<Rightarrow> metrics_row list" where
  "select_metrics st fid n =
     take n (order_by_desc timestamp (filter (\<lambda>m. flag_id m = fid) (impact_metrics st)))"

definition select_changes :: "state \<Rightarrow> string \<Rightarrow> nat \<Rightarrow> FlagChange list" where
  "select_changes st fid n =
     take n (order_by_desc changedAt (filter (\<lambda>c. flagId c = fid) (flag_changes st)))"

definition select_flag :: "state \<Rightarrow> string \<Rightarrow> flag_row option" where
  "select_flag st fid = find (\<lambda>f. row_id f = fid) (feature_flags st)"

section \<open>The prediction engine\<close>

text \<open>
  What the program does not contain: \<^verbatim>\<open>JSON.parse\<close> (\<open>None\<close> when it throws),
  \<^verbatim>\<open>JSON.stringify\<close>, the conversions of the SQL layer (\<open>SQL_text\<close> and
  \<open>SQL_real\<close>, explained at \<open>store_prediction\<close>) and the language model behind
  \<^verbatim>\<open>env.AI.run\<close>. The call
  to the model either fails (it throws, or yields no object to read
  \<^verbatim>\<open>response\<close> from) or resolves to an object whose \<^verbatim>\<open>response\<close> is a text or
  absent. Identifiers from \<^verbatim>\<open>crypto.randomUUID()\<close> and dates from
  \<^verbatim>\<open>new Date().toISOString()\<close> are arguments of the functions that ask for them.
\<close>

datatype ai_outcome = ai_rejected | ai_resolved "string option"

text \<open>
  The prompt is a fixed text around interpolated values. The record below keeps the
  values, in the order of the template, each as the text that the template prints;
  the request total is kept as the number.
\<close>

record prediction_prompt =
  prompt_flagName :: string
  prompt_changeType :: string
  prompt_previousValue :: string
  prompt_newValue :: string
  prompt_environment :: string
  prompt_changedBy :: string
  prompt_dataPoints :: nat
  prompt_avgErrorRate :: string
  prompt_avgLatency :: string
  prompt_totalRequests :: jsnum
  prompt_history :: string

record runtime =
  JSON_parse :: "string \<Rightarrow> json option"
  JSON_stringify :: "json \<Rightarrow> string"
  SQL_text :: "json \<Rightarrow> sql_value"
  SQL_real :: "json \<Rightarrow> sql_value"
  AI_run :: "prediction_prompt \<Rightarrow> ai_outcome"

text \<open>\<^verbatim>\<open>rows.reduce((sum, m) => sum + m.p, 0)\<close>\<close>

definition sum_prop :: "string \<Rightarrow> metrics_row list \<Rightarrow> jsnum" where
  "sum_prop p rows = foldl (\<lambda>sum m. js_plus sum (metrics_prop m p)) (Finite 0) rows"

definition avgErrorRate :: "metrics_row list \<Rightarrow> jsnum" where
  "avgErrorRate rows =
     (if length rows > 0
      then js_div (sum_prop ''errorRate'' rows) (Finite (of_nat (length rows)))
      else Finite 0)"

definition avgLatency :: "metrics_row list \<Rightarrow> jsnum" where
  "avgLatency rows =
     (if length rows > 0
      then js_div (sum_prop ''latencyP50'' rows) (Finite (of_nat (length rows)))
      else Finite 0)"

fun join_lines :: "string list \<Rightarrow> string" where
  "join_lines [] = []"
| "join_lines [l] = l"
| "join_lines (l # ls) = l @ [char_of (10::nat)] @ join_lines ls"

definition buildPredictionPrompt ::
  "runtime \<Rightarrow> FlagChange \<Rightarrow> metrics_row list \<Rightarrow> FlagChange list \<Rightarrow> prediction_prompt" where
  "buildPredictionPrompt rt change rows recentChanges =
     \<lparr>prompt_flagName = flagName change,
      prompt_changeType = changeType change,
      prompt_previousValue = JSON_stringify rt (previousValue change),
      prompt_newValue = JSON_stringify rt (newValue change),
      prompt_environment = environment change,
      prompt_changedBy = changedBy change,
      prompt_dataPoints = length rows,
      prompt_avgErrorRate = toFixed 2 (avgErrorRate rows),
      prompt_avgLatency = toFixed 2 (avgLatency rows),
      prompt_totalRequests = sum_prop ''requestCount'' rows,
      prompt_history =
        join_lines (map (\<lambda>c. ''- '' @ template (change_prop c ''changeType'') @ '' at ''
                                 @ template (change_prop c ''changedAt''))
                        (take 5 recentChanges))\<rparr>"

text \<open>
  \<^verbatim>\<open>responseText.match(/\{[\s\S]*\}/)\<close>: the text from the first opening brace to
  the last closing brace after it, if there is one.
\<close>

definition jsonMatch :: "string \<Rightarrow> string option" where
  "jsonMatch responseText =
     (let t = dropWhile (\<lambda>c. c \<noteq> CHR ''{'') responseText
      in if CHR ''}'' \<in> set t
         then Some (rev (dropWhile (\<lambda>c. c \<noteq> CHR ''}'') (rev t)))
         else None)"

text \<open>The object of the inner \<^verbatim>\<open>catch\<close>.\<close>

definition parse_fallback :: json where
  "parse_fallback =
     JObj [(''riskLevel'', JStr ''medium''),
           (''riskScore'', JNum 50),
           (''predictedImpact'',
              JObj [(''errorRateChange'', JNum 0), (''latencyChange'', JNum 0),
                    (''userImpactPercentage'', JNum 0)]),
           (''recommendations'', JArr [JStr ''Monitor closely after deployment'']),
           (''reasoning'', JStr ''Unable to fully analyze - recommend manual review''),
           (''confidence'', JNum (1 / 2))]"

definition parsedResponse :: "runtime \<Rightarrow> string \<Rightarrow> json" where
  "parsedResponse rt responseText =
     (case jsonMatch responseText of
        None \<Rightarrow> JObj []
      | Some m \<Rightarrow> (case JSON_parse rt m of None \<Rightarrow> parse_fallback | Some v \<Rightarrow> v))"

text \<open>The prediction of the outer \<^verbatim>\<open>catch\<close>.\<close>

definition error_prediction :: "FlagChange \<Rightarrow> string \<Rightarrow> ImpactPrediction" where
  "error_prediction change now =
     \<lparr>flagId = flagId change,
      flagName = flagName change,
      riskLevel = JStr ''medium'',
      riskScore = JNum 50,
      predictedImpact =
        JObj [(''errorRateChange'', JNum 0), (''latencyChange'', JNum 0),
              (''userImpactPercentage'', JNum 0)],
      recommendations = JArr [JStr ''Manual review recommended due to analysis error''],
      reasoning = JStr ''Automated analysis unavailable'',
      confidence = JNum (3 / 10),
      generatedAt = now\<rparr>"

definition build_prediction :: "FlagChange \<Rightarrow> json \<Rightarrow> string \<Rightarrow> ImpactPrediction" where
  "build_prediction change parsed now =
     \<lparr>flagId = flagId change,
      flagName = flagName change,
      riskLevel = js_or (get parsed ''riskLevel'') (JStr ''medium''),
      riskScore = js_or (get parsed ''riskScore'') (JNum 50),
      predictedImpact =
        js_or (get parsed ''predictedImpact'')
          (JObj [(''errorRateChange'', JNum 0), (''latencyChange'', JNum 0),
                 (''userImpactPercentage'',
                    js_or (get (newValue change) ''rolloutPercentage'') (JNum 0))]),
      recommendations = js_or (get parsed ''recommendations'') (JArr []),
      reasoning = js_or (get parsed ''reasoning'') (JStr []),
      confidence = js_or (get parsed ''confidence'') (JNum (7 / 10)),
      generatedAt = now\<rparr>"

text \<open>
  What \<^verbatim>\<open>INSERT OR REPLACE INTO predictions\<close> leaves in a column for the value
  bound to it. A text bound to a \<^verbatim>\<open>TEXT\<close> column and a number bound to a
  \<^verbatim>\<open>REAL\<close> column are stored as they are. Any other value of the prediction's
  field (the fields are of type \<^verbatim>\<open>any\<close>, and the insert binds them as they
  are) is converted by the binding and by the affinity of the column: a number
  becomes a text in a \<^verbatim>\<open>TEXT\<close> column, a text that reads as a number becomes
  a number in a \<^verbatim>\<open>REAL\<close> column, an array or an object is bound as a string.
  These conversions belong to the SQL layer and are the functions \<open>SQL_text\<close> and
  \<open>SQL_real\<close> of the runtime.
\<close>

definition text_column :: "runtime \<Rightarrow> json \<Rightarrow> sql_value" where
  "text_column rt v = (case v of JStr s \<Rightarrow> SqlText s | _ \<Rightarrow> SQL_text rt v)"

definition real_column :: "runtime \<Rightarrow> json \<Rightarrow> sql_value" where
  "real_column rt v = (case v of JNum x \<Rightarrow> SqlNum x | _ \<Rightarrow> SQL_real rt v)"

text \<open>The row that the insert of \<^verbatim>\<open>generatePrediction\<close> makes of a prediction.\<close>

definition row_of_prediction :: "runtime \<Rightarrow> ImpactPrediction \<Rightarrow> prediction_row" where
  "row_of_prediction rt p =
     \<lparr>flag_id = flagId p,
      flag_name = flagName p,
      risk_level = text_column rt (riskLevel p),
      risk_score = real_column rt (riskScore p),
      predicted_impact = JSON_stringify rt (predictedImpact p),
      recommendations_text = JSON_stringify rt (recommendations p),
      reasoning_text = text_column rt (reasoning p),
      confidence_value = real_column rt (confidence p),
      generated_at = generatedAt p\<rparr>"

text \<open>
  \<^verbatim>\<open>INSERT OR REPLACE INTO predictions\<close>: \<^verbatim>\<open>flag_id\<close> is the primary key, so
  the row of the same flag, if any, is removed and the new row is added.
\<close>

definition store_prediction :: "runtime \<Rightarrow> state \<Rightarrow> ImpactPrediction \<Rightarrow> state" where
  "store_prediction rt st p =
     st\<lparr>predictions :=
          filter (\<lambda>q. flag_id q \<noteq> flagId p) (predictions st) @ [row_of_prediction rt p]\<rparr>"

definition stored_prediction :: "state \<Rightarrow> string \<Rightarrow> prediction_row option" where
  "stored_prediction st fid = find (\<lambda>q. flag_id q = fid) (predictions st)"

text \<open>
  \<^verbatim>\<open>generatePrediction\<close>. The outer \<^verbatim>\<open>try\<close> covers the call of the model and
  everything after it; a \<^verbatim>\<open>null\<close> from \<^verbatim>\<open>JSON.parse\<close> makes the first property
  read throw, which also ends in the outer \<^verbatim>\<open>catch\<close>.
\<close>

definition prediction_request :: "runtime \<Rightarrow> state \<Rightarrow> FlagChange \<Rightarrow> prediction_prompt" where
  "prediction_request rt st change =
     (let historicalMetrics = select_metrics st (flagId change) 100;
          recentChanges = select_changes st (flagId change) 20
      in buildPredictionPrompt rt change historicalMetrics recentChanges)"

text \<open>\<^verbatim>\<open>aiResponse.response || '{}'\<close>\<close>

definition response_text :: "string option \<Rightarrow> string" where
  "response_text response = (case response of None \<Rightarrow> ''{}'' | Some r \<Rightarrow> str_or r ''{}'')"

definition generatePrediction ::
  "runtime \<Rightarrow> state \<Rightarrow> FlagChange \<Rightarrow> string \<Rightarrow> ImpactPrediction \<times> state" where
  "generatePrediction rt st change now =
     (let prompt = prediction_request rt st change
      in case AI_run rt prompt of
           ai_rejected \<Rightarrow> (error_prediction change now, st)
         | ai_resolved response \<Rightarrow>
             (let responseText = response_text response;
                  parsed = parsedResponse rt responseText
              in if parsed = JNull then (error_prediction change now, st)
                 else (let prediction = build_prediction change parsed now
                       in (prediction, store_prediction rt st prediction))))"

section \<open>The anomaly detector\<close>

text \<open>\<^verbatim>\<open>rows.reduce((sum, m) => sum + m.p, 0) / rows.length\<close>\<close>

definition mean_prop :: "string \<Rightarrow> metrics_row list \<Rightarrow> jsnum" where
  "mean_prop p rows = js_div (sum_prop p rows) (Finite (of_nat (length rows)))"

text \<open>\<^verbatim>\<open>((recent / baseline - 1) * 100).toFixed(1)\<close>\<close>

definition increase_percent :: "jsnum \<Rightarrow> jsnum \<Rightarrow> string" where
  "increase_percent recent baseline =
     toFixed 1 (js_mul (js_sub (js_div recent baseline) (Finite 1)) (Finite 100))"

text \<open>
  The two rules of \<^verbatim>\<open>detectAnomalies\<close>, as functions of the four averages: the
  severity and the message of the anomaly to create, or \<open>None\<close>. The products
  \<^verbatim>\<open>avgBaselineError * 1.5\<close> and \<^verbatim>\<open>avgBaselineLatency * 3\<close> are exact here
  and rounded to a double in the code, so for averages within one rounding step of a
  threshold the code can decide differently.
\<close>

definition error_spike_rule :: "jsnum \<Rightarrow> jsnum \<Rightarrow> (severity_level \<times> string) option" where
  "error_spike_rule avgRecentError avgBaselineError =
     (if js_gt avgRecentError (js_mul avgBaselineError (Finite (3 / 2)))
         \<and> js_gt avgRecentError (Finite 1)
      then Some (if js_gt avgRecentError (js_mul avgBaselineError (Finite 2))
                 then critical else warning,
                 ''Error rate increased by ''
                   @ increase_percent avgRecentError avgBaselineError
                   @ ''% since flag change'')
      else None)"

definition latency_spike_rule :: "jsnum \<Rightarrow> jsnum \<Rightarrow> (severity_level \<times> string) option" where
  "latency_spike_rule avgRecentLatency avgBaselineLatency =
     (if js_gt avgRecentLatency (js_mul avgBaselineLatency (Finite 2))
      then Some (if js_gt avgRecentLatency (js_mul avgBaselineLatency (Finite 3))
                 then critical else warning,
                 ''P50 latency increased by ''
                   @ increase_percent avgRecentLatency avgBaselineLatency
                   @ ''%'')
      else None)"

text \<open>
  \<^verbatim>\<open>createAnomaly\<close>: the row is inserted and the anomaly is broadcast. The
  identifier comes from \<^verbatim>\<open>crypto.randomUUID()\<close> and is taken to be new, so that
  the primary key of the table accepts it.
\<close>

definition createAnomaly :: "state \<Rightarrow> Anomaly \<Rightarrow> state" where
  "createAnomaly st a =
     st\<lparr>anomalies := anomalies st @ [a],
        broadcasts := broadcasts st @ [anomaly_detected a]\<rparr>"

text \<open>
  \<^verbatim>\<open>detectAnomalies(flagId)\<close>. The arguments \<open>e\<close> and \<open>l\<close> are the identifier and
  the date that the error rule and the latency rule obtain when they fire.
\<close>

definition detectAnomalies ::
  "state \<Rightarrow> string \<Rightarrow> string \<times> string \<Rightarrow> string \<times> string \<Rightarrow> state" where
  "detectAnomalies st fid e l =
     (let rows = select_metrics st fid 50 in
      if length rows < 5 then st
      else
        let recent = take 5 rows;
            baseline = drop 5 rows
        in
        if length baseline = 0 then st
        else
          let avgBaselineError = mean_prop ''errorRate'' baseline;
              avgBaselineLatency = mean_prop ''latencyP50'' baseline;
              avgRecentError = mean_prop ''errorRate'' recent;
              avgRecentLatency = mean_prop ''latencyP50'' recent;
              fname = (case select_flag st fid of
                         None \<Rightarrow> fid
                       | Some flag \<Rightarrow> str_or (name flag) fid);
              st1 = (case error_spike_rule avgRecentError avgBaselineError of
                       None \<Rightarrow> st
                     | Some (sev, msg) \<Rightarrow>
                         createAnomaly st
                           \<lparr>flagId = fid, flagName = fname, anomaly_id = fst e,
                            anomaly_type = error_spike, severity = sev,
                            detectedAt = snd e, metrics = hd recent,
                            message = msg, resolved = False\<rparr>)
          in
            (case latency_spike_rule avgRecentLatency avgBaselineLatency of
               None \<Rightarrow> st1
             | Some (sev, msg) \<Rightarrow>
                 createAnomaly st1
                   \<lparr>flagId = fid, flagName = fname, anomaly_id = fst l,
                    anomaly_type = latency_spike, severity = sev,
                    detectedAt = snd l, metrics = hd recent,
                    message = msg, resolved = False\<rparr>))"

text \<open>
  \<^verbatim>\<open>getRecentAnomalies\<close>, which \<^verbatim>\<open>GET /anomalies\<close> returns and which the reply
  to \<^verbatim>\<open>subscribe_anomalies\<close> carries.
\<close>

definition getRecentAnomalies :: "state \<Rightarrow> Anomaly list" where
  "getRecentAnomalies st =
     take 20 (order_by_desc detectedAt (filter (\<lambda>a. \<not> resolved a) (anomalies st)))"

definition getAnomalies :: "state \<Rightarrow> Anomaly list" where
  "getAnomalies st = getRecentAnomalies st"

datatype socket_frame = subscribed string "Anomaly list"

definition subscribe_anomalies :: "state \<Rightarrow> socket_frame" where
  "subscribe_anomalies st = subscribed ''anomalies'' (getRecentAnomalies st)"

section \<open>Recording a change and analysing a flag\<close>

datatype error = sql_constraint

text \<open>
  \<^verbatim>\<open>recordFlagChange\<close> completes the change in place (an absent \<^verbatim>\<open>id\<close> or
  \<^verbatim>\<open>changedAt\<close> is the empty string here: both are falsy) and inserts it. The
  identifier may come from the caller; \<^verbatim>\<open>id\<close> is the primary key of
  \<^verbatim>\<open>flag_changes\<close>, and the insert throws when a row has it already.
\<close>

definition complete_change :: "FlagChange \<Rightarrow> string \<times> string \<Rightarrow> FlagChange" where
  "complete_change change f =
     change\<lparr>change_id := str_or (change_id change) (fst f),
            changedAt := str_or (changedAt change) (snd f)\<rparr>"

definition recordFlagChange ::
  "state \<Rightarrow> FlagChange \<Rightarrow> string \<times> string \<Rightarrow> error + (FlagChange \<times> state)" where
  "recordFlagChange st change f =
     (let change' = complete_change change f
      in if change_id change' \<in> set (map change_id (flag_changes st))
         then Inl sql_constraint
         else Inr (change', st\<lparr>flag_changes := flag_changes st @ [change']\<rparr>))"

definition broadcast :: "state \<Rightarrow> event \<Rightarrow> state" where
  "broadcast st ev = st\<lparr>broadcasts := broadcasts st @ [ev]\<rparr>"

text \<open>
  The pipeline that \<^verbatim>\<open>recordChange\<close> and \<^verbatim>\<open>analyzeFlag\<close> share: the
  prediction, then the scan for anomalies.
\<close>

definition analyse ::
  "runtime \<Rightarrow> state \<Rightarrow> FlagChange \<Rightarrow> string \<Rightarrow> string \<Rightarrow> string \<times> string \<Rightarrow> string \<times> string
     \<Rightarrow> ImpactPrediction \<times> state" where
  "analyse rt st change fid now e l =
     (case generatePrediction rt st change now of
        (prediction, st1) \<Rightarrow> (prediction, detectAnomalies st1 fid e l))"

definition recordChange ::
  "runtime \<Rightarrow> state \<Rightarrow> FlagChange \<Rightarrow> string \<times> string \<Rightarrow> string \<Rightarrow> string \<times> string
     \<Rightarrow> string \<times> string \<Rightarrow> error + ((FlagChange \<times> ImpactPrediction) \<times> state)" where
  "recordChange rt st change f now e l =
     (case recordFlagChange st change f of
        Inl err \<Rightarrow> Inl err
      | Inr (change', st1) \<Rightarrow>
          (case analyse rt st1 change' (flagId change') now e l of
             (prediction, st2) \<Rightarrow>
               Inr ((change', prediction),
                    broadcast st2 (flag_changed change' prediction))))"

datatype analyze_response = flag_not_found | analyzed flag_row ImpactPrediction

definition synthetic_change :: "flag_row \<Rightarrow> string \<times> string \<Rightarrow> FlagChange" where
  "synthetic_change flag f =
     \<lparr>flagId = row_id flag,
      flagName = name flag,
      change_id = fst f,
      changeType = ''enabled'',
      previousValue = JNull,
      newValue = flag_object flag,
      changedBy = ''manual_analysis'',
      changedAt = snd f,
      environment = str_or (target_environment flag) ''development''\<rparr>"

definition analyzeFlag ::
  "runtime \<Rightarrow> state \<Rightarrow> string \<Rightarrow> string \<times> string \<Rightarrow> string \<Rightarrow> string \<times> string
     \<Rightarrow> string \<times> string \<Rightarrow> analyze_response \<times> state" where
  "analyzeFlag rt st fid f now e l =
     (case select_flag st fid of
        None \<Rightarrow> (flag_not_found, st)
      | Some flag \<Rightarrow>
          (case analyse rt st (synthetic_change flag f) fid now e l of
             (prediction, st1) \<Rightarrow> (analyzed flag prediction, st1)))"

section \<open>Scenarios\<close>

text \<open>
  Concrete inputs for the evaluations below: the flag \<open>F\<close>, metric samples as the
  README posts them, and runtimes whose model gives a fixed answer.
\<close>

definition sample :: "string \<Rightarrow> rat \<Rightarrow> rat \<Rightarrow> metrics_row" where
  "sample t e p =
     \<lparr>flag_id = ''F'', timestamp = t, error_rate = e, latency_p50 = p,
      latency_p99 = 120, request_count = 5000, conversion_rate = 16 / 5,
      user_satisfaction_score = 21 / 5\<rparr>"

definition empty_state :: state where
  "empty_state =
     \<lparr>feature_flags = [], flag_changes = [], impact_metrics = [], predictions = [],
      anomalies = [], broadcasts = []\<rparr>"

text \<open>Error rates 1, 1, 1, 1, 1, 5 from the oldest to the newest sample.\<close>

definition six_samples :: state where
  "six_samples = empty_state\<lparr>impact_metrics :=
     [sample ''2024-05-01T10:00:00.000Z'' 1 50,
      sample ''2024-05-01T10:01:00.000Z'' 1 50,
      sample ''2024-05-01T10:02:00.000Z'' 1 50,
      sample ''2024-05-01T10:03:00.000Z'' 1 50,
      sample ''2024-05-01T10:04:00.000Z'' 1 50,
      sample ''2024-05-01T10:05:00.000Z'' 5 50]\<rparr>"

definition five_samples :: state where
  "five_samples = empty_state\<lparr>impact_metrics :=
     [sample ''2024-05-01T10:00:00.000Z'' 1 50,
      sample ''2024-05-01T10:01:00.000Z'' 1 50,
      sample ''2024-05-01T10:02:00.000Z'' 1 50,
      sample ''2024-05-01T10:03:00.000Z'' 1 50,
      sample ''2024-05-01T10:04:00.000Z'' 9 500]\<rparr>"

text \<open>Error rate 1 in the oldest sample and 2 in the five newest: a ratio of exactly 2.\<close>

definition ratio_two_samples :: state where
  "ratio_two_samples = empty_state\<lparr>impact_metrics :=
     [sample ''2024-05-01T10:00:00.000Z'' 1 50,
      sample ''2024-05-01T10:01:00.000Z'' 2 50,
      sample ''2024-05-01T10:02:00.000Z'' 2 50,
      sample ''2024-05-01T10:03:00.000Z'' 2 50,
      sample ''2024-05-01T10:04:00.000Z'' 2 50,
      sample ''2024-05-01T10:05:00.000Z'' 2 50]\<rparr>"

text \<open>P50 latency 50 in the oldest sample and 160 in the five newest.\<close>

definition latency_samples :: state where
  "latency_samples = empty_state\<lparr>impact_metrics :=
     [sample ''2024-05-01T10:00:00.000Z'' 1 50,
      sample ''2024-05-01T10:01:00.000Z'' 1 160,
      sample ''2024-05-01T10:02:00.000Z'' 1 160,
      sample ''2024-05-01T10:03:00.000Z'' 1 160,
      sample ''2024-05-01T10:04:00.000Z'' 1 160,
      sample ''2024-05-01T10:05:00.000Z'' 1 160]\<rparr>"

definition toggle :: FlagChange where
  "toggle =
     \<lparr>flagId = ''F'', flagName = ''new-checkout-flow'', change_id = ''c-1'',
      changeType = ''enabled'',
      previousValue = JObj [(''enabled'', JBool False), (''rolloutPercentage'', JNum 0)],
      newValue = JObj [(''enabled'', JBool True), (''rolloutPercentage'', JNum 10)],
      changedBy = ''john@example.com'', changedAt = ''2024-05-01T10:06:00.000Z'',
      environment = ''staging''\<rparr>"

definition parse_nothing :: "string \<Rightarrow> json option" where
  "parse_nothing s = None"

definition any_text :: "json \<Rightarrow> string" where
  "any_text v = []"

definition no_value :: "json \<Rightarrow> sql_value" where
  "no_value v = SqlNull"

text \<open>The model answers in prose, without any brace.\<close>

definition prose_answer :: "prediction_prompt \<Rightarrow> ai_outcome" where
  "prose_answer p = ai_resolved (Some ''I cannot assess this change.'')"

definition prose_runtime :: runtime where
  "prose_runtime =
     \<lparr>JSON_parse = parse_nothing, JSON_stringify = any_text,
      SQL_text = no_value, SQL_real = no_value, AI_run = prose_answer\<rparr>"

text \<open>The model answers with braces around text that is not JSON.\<close>

definition braces_answer :: "prediction_prompt \<Rightarrow> ai_outcome" where
  "braces_answer p = ai_resolved (Some ''The risk is {medium to high}.'')"

definition braces_runtime :: runtime where
  "braces_runtime =
     \<lparr>JSON_parse = parse_nothing, JSON_stringify = any_text,
      SQL_text = no_value, SQL_real = no_value, AI_run = braces_answer\<rparr>"

text \<open>The call of the model fails.\<close>

definition no_answer :: "prediction_prompt \<Rightarrow> ai_outcome" where
  "no_answer p = ai_rejected"

definition failing_runtime :: runtime where
  "failing_runtime =
     \<lparr>JSON_parse = parse_nothing, JSON_stringify = any_text,
      SQL_text = no_value, SQL_real = no_value, AI_run = no_answer\<rparr>"

text \<open>The model answers with a JSON object whose risk score and confidence are 0.\<close>

definition zero_text :: string where
  \<open>zero_text = ''{"riskLevel":"low","riskScore":0,"confidence":0}''\<close>

definition zero_object :: json where
  "zero_object =
     JObj [(''riskLevel'', JStr ''low''), (''riskScore'', JNum 0), (''confidence'', JNum 0)]"

definition parse_zero :: "string \<Rightarrow> json option" where
  "parse_zero s = (if s = zero_text then Some zero_object else None)"

definition zero_answer :: "prediction_prompt \<Rightarrow> ai_outcome" where
  "zero_answer p = ai_resolved (Some zero_text)"

definition zero_runtime :: runtime where
  "zero_runtime =
     \<lparr>JSON_parse = parse_zero, JSON_stringify = any_text,
      SQL_text = no_value, SQL_real = no_value, AI_run = zero_answer\<rparr>"

text \<open>
  The model answers with a well-formed object, except that the risk score is the
  text "80"; the \<^verbatim>\<open>REAL\<close> column \<^verbatim>\<open>risk_score\<close> turns such a text into the
  number.
\<close>

definition quoted_text :: string where
  \<open>quoted_text = ''{"riskLevel":"high","riskScore":"80","confidence":0.9}''\<close>

definition quoted_object :: json where
  "quoted_object =
     JObj [(''riskLevel'', JStr ''high''), (''riskScore'', JStr ''80''),
           (''confidence'', JNum (9 / 10))]"

definition parse_quoted :: "string \<Rightarrow> json option" where
  "parse_quoted s = (if s = quoted_text then Some quoted_object else None)"

definition quoted_answer :: "prediction_prompt \<Rightarrow> ai_outcome" where
  "quoted_answer p = ai_resolved (Some quoted_text)"

definition numeric_text :: "json \<Rightarrow> sql_value" where
  "numeric_text v = (if v = JStr ''80'' then SqlNum 80 else SqlNull)"

definition quoted_runtime :: runtime where
  "quoted_runtime =
     \<lparr>JSON_parse = parse_quoted, JSON_stringify = any_text,
      SQL_text = no_value, SQL_real = numeric_text, AI_run = quoted_answer\<rparr>"

text \<open>The row stored for \<open>F\<close> by an earlier call.\<close>

definition old_row :: prediction_row where
  \<open>old_row =
     \<lparr>flag_id = ''F'', flag_name = ''new-checkout-flow'', risk_level = SqlText ''high'',
      risk_score = SqlNum 80,
      predicted_impact =
        ''{"errorRateChange":5,"latencyChange":20,"userImpactPercentage":10}'',
      recommendations_text = ''["Roll out gradually"]'',
      reasoning_text = SqlText ''Checkout is on the critical path'',
      confidence_value = SqlNum (4 / 5), generated_at = ''2024-04-30T09:00:00.000Z''\<rparr>\<close>

definition with_prediction :: state where
  "with_prediction = empty_state\<lparr>predictions := [old_row]\<rparr>"

text \<open>
  Twenty-two anomalies of \<open>F\<close>, detected on the days 1 to 22 of a month; the one of
  day 5 has been resolved.
\<close>

definition day_stamp :: "nat \<Rightarrow> string" where
  "day_stamp d =
     ''2024-05-'' @ (if d < 10 then ''0'' else []) @ nat_digits d @ ''T12:00:00.000Z''"

definition spike :: "nat \<Rightarrow> Anomaly" where
  "spike d =
     \<lparr>flagId = ''F'', flagName = ''new-checkout-flow'',
      anomaly_id = ''a-'' @ nat_digits d, anomaly_type = latency_spike,
      severity = warning, detectedAt = day_stamp d,
      metrics = sample (day_stamp d) 1 160,
      message = ''P50 latency increased by 220.0%'', resolved = (d = 5)\<rparr>"

definition crowded :: state where
  "crowded = empty_state\<lparr>anomalies := map spike [1..<23]\<rparr>"

text \<open>The flag \<open>F\<close> with one change on record.\<close>

definition checkout_flag :: flag_row where
  "checkout_flag =
     \<lparr>row_id = ''F'', name = ''new-checkout-flow'', description = ''New checkout'',
      enabled = True, rollout_percentage = 10, target_environment = ''staging'',
      created_at = ''2024-04-30T08:00:00.000Z'', updated_at = ''2024-04-30T08:00:00.000Z'',
      tags = ''[]'', owner = ''john@example.com''\<rparr>"

definition creation :: FlagChange where
  "creation =
     \<lparr>flagId = ''F'', flagName = ''new-checkout-flow'', change_id = ''c-0'',
      changeType = ''created'', previousValue = JNull, newValue = flag_object checkout_flag,
      changedBy = ''john@example.com'', changedAt = ''2024-04-30T08:00:00.000Z'',
      environment = ''staging''\<rparr>"

definition one_flag :: state where
  "one_flag = empty_state\<lparr>feature_flags := [checkout_flag], flag_changes := [creation]\<rparr>"

section \<open>Properties of the queries\<close>

lemma length_order_by_desc [simp]: "length (order_by_desc key rows) = length rows"
  by (simp add: order_by_desc_def)

lemma set_order_by_desc [simp]: "set (order_by_desc key rows) = set rows"
  by (simp add: order_by_desc_def)

lemma newest_first_order_by_desc:
  "sorted_wrt (\<lambda>a b. key b \<le> key a) (order_by_desc key rows)"
proof -
  have "sorted (map key (sort_key key (rev rows)))"
    by (rule sorted_sort_key)
  then have "sorted_wrt (\<lambda>a b. key a \<le> key b) (sort_key key (rev rows))"
    by (simp add: sorted_map)
  then show ?thesis
    by (simp add: order_by_desc_def sorted_wrt_rev)
qed

section \<open>The prediction engine: what is returned and what is stored\<close>

lemma generatePrediction_rejected:
  "AI_run rt (prediction_request rt st change) = ai_rejected
   \<Longrightarrow> generatePrediction rt st change now = (error_prediction change now, st)"
  by (simp add: generatePrediction_def)

lemma generatePrediction_resolved:
  "AI_run rt (prediction_request rt st change) = ai_resolved r
   \<Longrightarrow> parsedResponse rt (response_text r) \<noteq> JNull
   \<Longrightarrow> generatePrediction rt st change now =
         (build_prediction change (parsedResponse rt (response_text r)) now,
          store_prediction rt st
            (build_prediction change (parsedResponse rt (response_text r)) now))"
  by (simp add: generatePrediction_def Let_def)

lemma flagId_build_prediction [simp]:
  "flagId (build_prediction change parsed now) = flagId change"
  by (simp add: build_prediction_def)

lemma flag_id_row_of_prediction [simp]: "flag_id (row_of_prediction rt p) = flagId p"
  by (simp add: row_of_prediction_def)

lemma stored_after_store:
  "stored_prediction (store_prediction rt st p) (flagId p) = Some (row_of_prediction rt p)"
proof -
  have "find (\<lambda>q. flag_id q = flagId p)
          (filter (\<lambda>q. flag_id q \<noteq> flagId p) rows @ [row_of_prediction rt p])
          = Some (row_of_prediction rt p)" for rows
    by (induction rows) auto
  then show ?thesis by (simp add: stored_prediction_def store_prediction_def)
qed

lemma one_row_after_store:
  "filter (\<lambda>q. flag_id q = flagId p) (predictions (store_prediction rt st p))
     = [row_of_prediction rt p]"
proof -
  have "filter (\<lambda>q. flag_id q = flagId p) (filter (\<lambda>q. flag_id q \<noteq> flagId p) rows) = []"
    for rows :: "prediction_row list"
    by (induction rows) auto
  then show ?thesis by (simp add: store_prediction_def)
qed

lemma other_rows_after_store:
  "filter (\<lambda>q. flag_id q \<noteq> flagId p) (predictions (store_prediction rt st p))
     = filter (\<lambda>q. flag_id q \<noteq> flagId p) (predictions st)"
  by (simp add: store_prediction_def)

text \<open>
  A field that holds a text goes into its \<^verbatim>\<open>TEXT\<close> column, and a field that
  holds a number into its \<^verbatim>\<open>REAL\<close> column, as it is.
\<close>

lemma typed_fields_stored_as_given:
  "(riskLevel p = JStr l \<longrightarrow> risk_level (row_of_prediction rt p) = SqlText l)
   \<and> (riskScore p = JNum x \<longrightarrow> risk_score (row_of_prediction rt p) = SqlNum x)
   \<and> (reasoning p = JStr t \<longrightarrow> reasoning_text (row_of_prediction rt p) = SqlText t)
   \<and> (confidence p = JNum c \<longrightarrow> confidence_value (row_of_prediction rt p) = SqlNum c)"
  by (simp add: row_of_prediction_def text_column_def real_column_def)

text \<open>
  C1, as the specification states it, fails: when the model answers in prose, with no
  brace in the text, \<^verbatim>\<open>jsonMatch\<close> is \<^verbatim>\<open>null\<close>, the parsed response is the
  empty object and every field takes its own default. The prediction has confidence
  0.7, no recommendation, an empty reasoning and the rollout percentage of the new
  value as the share of users affected; it is not the fallback of confidence 0.5.
\<close>

theorem C1_prose_answer_gets_field_defaults:
  "jsonMatch ''I cannot assess this change.'' = None
   \<and> fst (generatePrediction prose_runtime with_prediction toggle ''2024-05-01T10:06:01.000Z'')
       = \<lparr>flagId = ''F'', flagName = ''new-checkout-flow'',
          riskLevel = JStr ''medium'', riskScore = JNum 50,
          predictedImpact =
            JObj [(''errorRateChange'', JNum 0), (''latencyChange'', JNum 0),
                  (''userImpactPercentage'', JNum 10)],
          recommendations = JArr [], reasoning = JStr [],
          confidence = JNum (7 / 10), generatedAt = ''2024-05-01T10:06:01.000Z''\<rparr>
   \<and> confidence (fst (generatePrediction prose_runtime with_prediction toggle
                         ''2024-05-01T10:06:01.000Z'')) \<noteq> JNum (1 / 2)
   \<and> recommendations (fst (generatePrediction prose_runtime with_prediction toggle
                              ''2024-05-01T10:06:01.000Z''))
       \<noteq> JArr [JStr ''Monitor closely after deployment'']"
  by (simp add: generatePrediction_def prose_runtime_def prose_answer_def response_text_def
      str_or_def parsedResponse_def jsonMatch_def build_prediction_def Let_def toggle_def)

text \<open>
  C1, amended. When the call of the model succeeds with a text that has no brace
  delimited part, the prediction is built from the empty object: risk level medium,
  risk score 50, error rate and latency deltas 0, users affected the rollout
  percentage of the new value (0 without one), no recommendation, empty reasoning,
  confidence 0.7. The fixed fallback of confidence 0.5, with the recommendation
  "Monitor closely after deployment", is the result when a brace delimited part is
  found and \<^verbatim>\<open>JSON.parse\<close> rejects it. In both cases the row stored for the
  flag holds the values of the prediction returned: its risk level, risk score,
  reasoning and confidence as they are, its impact and its recommendations as their
  JSON text.
\<close>

theorem C1_unparsed_answer:
  assumes "AI_run rt (prediction_request rt st change) = ai_resolved (Some answer)"
    and "answer \<noteq> []"
  shows "(jsonMatch answer = None \<longrightarrow>
           (let p = \<lparr>flagId = flagId change, flagName = flagName change,
                      riskLevel = JStr ''medium'', riskScore = JNum 50,
                      predictedImpact =
                        JObj [(''errorRateChange'', JNum 0), (''latencyChange'', JNum 0),
                              (''userImpactPercentage'',
                                 js_or (get (newValue change) ''rolloutPercentage'') (JNum 0))],
                      recommendations = JArr [], reasoning = JStr [],
                      confidence = JNum (7 / 10), generatedAt = now\<rparr>
            in generatePrediction rt st change now = (p, store_prediction rt st p)
               \<and> stored_prediction (store_prediction rt st p) (flagId change)
                   = Some \<lparr>flag_id = flagId change, flag_name = flagName change,
                            risk_level = SqlText ''medium'', risk_score = SqlNum 50,
                            predicted_impact = JSON_stringify rt (predictedImpact p),
                            recommendations_text = JSON_stringify rt (JArr []),
                            reasoning_text = SqlText [],
                            confidence_value = SqlNum (7 / 10), generated_at = now\<rparr>))
       \<and> (\<forall>m. jsonMatch answer = Some m \<and> JSON_parse rt m = None \<longrightarrow>
           (let p = \<lparr>flagId = flagId change, flagName = flagName change,
                      riskLevel = JStr ''medium'', riskScore = JNum 50,
                      predictedImpact =
                        JObj [(''errorRateChange'', JNum 0), (''latencyChange'', JNum 0),
                              (''userImpactPercentage'', JNum 0)],
                      recommendations = JArr [JStr ''Monitor closely after deployment''],
                      reasoning = JStr ''Unable to fully analyze - recommend manual review'',
                      confidence = JNum (1 / 2), generatedAt = now\<rparr>
            in generatePrediction rt st change now = (p, store_prediction rt st p)
               \<and> stored_prediction (store_prediction rt st p) (flagId change)
                   = Some \<lparr>flag_id = flagId change, flag_name = flagName change,
                            risk_level = SqlText ''medium'', risk_score = SqlNum 50,
                            predicted_impact = JSON_stringify rt (predictedImpact p),
                            recommendations_text =
                              JSON_stringify rt (JArr [JStr ''Monitor closely after deployment'']),
                            reasoning_text =
                              SqlText ''Unable to fully analyze - recommend manual review'',
                            confidence_value = SqlNum (1 / 2), generated_at = now\<rparr>))"
proof -
  have answer: "response_text (Some answer) = answer"
    using assms(2) by (simp add: response_text_def str_or_def)
  have defaults: "build_prediction change (JObj []) now =
      \<lparr>flagId = flagId change, flagName = flagName change,
       riskLevel = JStr ''medium'', riskScore = JNum 50,
       predictedImpact =
         JObj [(''errorRateChange'', JNum 0), (''latencyChange'', JNum 0),
               (''userImpactPercentage'',
                  js_or (get (newValue change) ''rolloutPercentage'') (JNum 0))],
       recommendations = JArr [], reasoning = JStr [],
       confidence = JNum (7 / 10), generatedAt = now\<rparr>"
    by (simp add: build_prediction_def)
  have fallback: "build_prediction change parse_fallback now =
      \<lparr>flagId = flagId change, flagName = flagName change,
       riskLevel = JStr ''medium'', riskScore = JNum 50,
       predictedImpact =
         JObj [(''errorRateChange'', JNum 0), (''latencyChange'', JNum 0),
               (''userImpactPercentage'', JNum 0)],
       recommendations = JArr [JStr ''Monitor closely after deployment''],
       reasoning = JStr ''Unable to fully analyze - recommend manual review'',
       confidence = JNum (1 / 2), generatedAt = now\<rparr>"
    by (simp add: build_prediction_def parse_fallback_def)
  have stored:
    "stored_prediction (store_prediction rt st (build_prediction change v now)) (flagId change)
       = Some (row_of_prediction rt (build_prediction change v now))" for v
    using stored_after_store [of rt st "build_prediction change v now"] by simp
  have no_match: "generatePrediction rt st change now =
      (build_prediction change (JObj []) now,
       store_prediction rt st (build_prediction change (JObj []) now))"
    if "jsonMatch answer = None"
    using generatePrediction_resolved [OF assms(1), of now] that
    by (simp add: answer parsedResponse_def)
  have no_parse: "generatePrediction rt st change now =
      (build_prediction change parse_fallback now,
       store_prediction rt st (build_prediction change parse_fallback now))"
    if "jsonMatch answer = Some m" "JSON_parse rt m = None" for m
    using generatePrediction_resolved [OF assms(1), of now] that
    by (simp add: answer parsedResponse_def parse_fallback_def)
  have first: "jsonMatch answer = None \<longrightarrow>
      generatePrediction rt st change now =
        (build_prediction change (JObj []) now,
         store_prediction rt st (build_prediction change (JObj []) now))
      \<and> stored_prediction (store_prediction rt st (build_prediction change (JObj []) now))
           (flagId change)
          = Some (row_of_prediction rt (build_prediction change (JObj []) now))"
    using no_match stored [of "JObj []"] by blast
  have second: "\<forall>m. jsonMatch answer = Some m \<and> JSON_parse rt m = None \<longrightarrow>
      generatePrediction rt st change now =
        (build_prediction change parse_fallback now,
         store_prediction rt st (build_prediction change parse_fallback now))
      \<and> stored_prediction (store_prediction rt st (build_prediction change parse_fallback now))
           (flagId change)
          = Some (row_of_prediction rt (build_prediction change parse_fallback now))"
    using no_parse stored [of parse_fallback] by blast
  show ?thesis
    using first second unfolding defaults fallback Let_def
    by (simp add: row_of_prediction_def text_column_def real_column_def)
qed

theorem C1_unparsed_answer_witness:
  "jsonMatch ''I cannot assess this change.'' = None
   \<and> generatePrediction prose_runtime empty_state toggle ''2024-05-01T10:06:01.000Z''
       = (\<lparr>flagId = ''F'', flagName = ''new-checkout-flow'',
           riskLevel = JStr ''medium'', riskScore = JNum 50,
           predictedImpact =
             JObj [(''errorRateChange'', JNum 0), (''latencyChange'', JNum 0),
                   (''userImpactPercentage'', JNum 10)],
           recommendations = JArr [], reasoning = JStr [],
           confidence = JNum (7 / 10), generatedAt = ''2024-05-01T10:06:01.000Z''\<rparr>,
          empty_state\<lparr>predictions :=
            [\<lparr>flag_id = ''F'', flag_name = ''new-checkout-flow'',
              risk_level = SqlText ''medium'', risk_score = SqlNum 50,
              predicted_impact = [], recommendations_text = [],
              reasoning_text = SqlText [], confidence_value = SqlNum (7 / 10),
              generated_at = ''2024-05-01T10:06:01.000Z''\<rparr>]\<rparr>)
   \<and> jsonMatch ''The risk is {medium to high}.'' = Some ''{medium to high}''
   \<and> JSON_parse braces_runtime ''{medium to high}'' = None
   \<and> fst (generatePrediction braces_runtime empty_state toggle ''2024-05-01T10:06:01.000Z'')
       = \<lparr>flagId = ''F'', flagName = ''new-checkout-flow'',
          riskLevel = JStr ''medium'', riskScore = JNum 50,
          predictedImpact =
            JObj [(''errorRateChange'', JNum 0), (''latencyChange'', JNum 0),
                  (''userImpactPercentage'', JNum 0)],
          recommendations = JArr [JStr ''Monitor closely after deployment''],
          reasoning = JStr ''Unable to fully analyze - recommend manual review'',
          confidence = JNum (1 / 2), generatedAt = ''2024-05-01T10:06:01.000Z''\<rparr>
   \<and> stored_prediction
         (snd (generatePrediction braces_runtime empty_state toggle ''2024-05-01T10:06:01.000Z''))
         ''F''
       = Some \<lparr>flag_id = ''F'', flag_name = ''new-checkout-flow'',
                risk_level = SqlText ''medium'', risk_score = SqlNum 50,
                predicted_impact = [], recommendations_text = [],
                reasoning_text = SqlText ''Unable to fully analyze - recommend manual review'',
                confidence_value = SqlNum (1 / 2),
                generated_at = ''2024-05-01T10:06:01.000Z''\<rparr>"
proof -
  have prose: "AI_run prose_runtime (prediction_request prose_runtime empty_state toggle)
                 = ai_resolved (Some ''I cannot assess this change.'')"
    by (simp add: prose_runtime_def prose_answer_def)
  have braces: "AI_run braces_runtime (prediction_request braces_runtime empty_state toggle)
                 = ai_resolved (Some ''The risk is {medium to high}.'')"
    by (simp add: braces_runtime_def braces_answer_def)
  have no_match: "jsonMatch ''I cannot assess this change.'' = None"
    by (simp add: jsonMatch_def)
  have match: "jsonMatch ''The risk is {medium to high}.'' = Some ''{medium to high}''"
    by (simp add: jsonMatch_def)
  have no_parse: "JSON_parse braces_runtime ''{medium to high}'' = None"
    by (simp add: braces_runtime_def parse_nothing_def)
  have rollout: "js_or (get (newValue toggle) ''rolloutPercentage'') (JNum 0) = JNum 10"
    by (simp add: toggle_def)
  have texts: "JSON_stringify prose_runtime v = []" "JSON_stringify braces_runtime v = []" for v
    by (simp_all add: prose_runtime_def braces_runtime_def any_text_def)
  show ?thesis
    using C1_unparsed_answer [OF prose, of "''2024-05-01T10:06:01.000Z''"]
      C1_unparsed_answer [OF braces, of "''2024-05-01T10:06:01.000Z''"]
      no_match match no_parse rollout
    by (simp add: Let_def store_prediction_def row_of_prediction_def text_column_def
        real_column_def texts empty_state_def toggle_def)
qed

text \<open>
  C3, as the specification states it, fails: when the call of the model fails, the
  fallback of confidence 0.3 is returned from the outer \<^verbatim>\<open>catch\<close>, which stores
  nothing. The row stored for the flag is still the earlier one, of confidence 0.8,
  and not the row of the fallback.
\<close>

theorem C3_failed_call_keeps_old_prediction:
  "fst (generatePrediction failing_runtime with_prediction toggle ''2024-05-01T10:06:01.000Z'')
     = error_prediction toggle ''2024-05-01T10:06:01.000Z''
   \<and> confidence (fst (generatePrediction failing_runtime with_prediction toggle
                         ''2024-05-01T10:06:01.000Z'')) = JNum (3 / 10)
   \<and> stored_prediction (snd (generatePrediction failing_runtime with_prediction toggle
                                ''2024-05-01T10:06:01.000Z'')) ''F'' = Some old_row
   \<and> confidence_value old_row = SqlNum (4 / 5)
   \<and> stored_prediction (snd (generatePrediction failing_runtime with_prediction toggle
                                ''2024-05-01T10:06:01.000Z'')) ''F''
       \<noteq> Some (row_of_prediction failing_runtime
                 (fst (generatePrediction failing_runtime with_prediction toggle
                         ''2024-05-01T10:06:01.000Z'')))"
  by (simp add: generatePrediction_def failing_runtime_def no_answer_def error_prediction_def
      with_prediction_def empty_state_def stored_prediction_def old_row_def toggle_def
      row_of_prediction_def text_column_def real_column_def)

text \<open>
  C3, amended. A call in which the model fails returns the fallback of confidence
  0.3 and leaves the table of predictions, and the whole state, as it was. A call in
  which the model answers stores one row under the flag id, made of the prediction
  it returns: afterwards that row is the only row of the flag and the rows of other
  flags are as before. The row holds the flag name and the date of the prediction,
  the JSON text of its impact and of its recommendations, and its risk level,
  risk score, reasoning and confidence as the SQL layer stores the values bound:
  a risk level or reasoning that is a text and a risk score or confidence that is a
  number are stored as they are, so for such a prediction the stored values are the
  returned ones; a value of another type is stored as converted (a risk score given
  as the text "80" is stored as the number 80).
\<close>

theorem C3_prediction_stored_unless_call_fails:
  "(AI_run rt (prediction_request rt st change) = ai_rejected \<longrightarrow>
      generatePrediction rt st change now = (error_prediction change now, st)
      \<and> confidence (error_prediction change now) = JNum (3 / 10)
      \<and> recommendations (error_prediction change now)
          = JArr [JStr ''Manual review recommended due to analysis error'']
      \<and> reasoning (error_prediction change now) = JStr ''Automated analysis unavailable'')
   \<and> (\<forall>r. AI_run rt (prediction_request rt st change) = ai_resolved r
           \<and> parsedResponse rt (response_text r) \<noteq> JNull \<longrightarrow>
        (case generatePrediction rt st change now of
           (p, st') \<Rightarrow>
              stored_prediction st' (flagId change) = Some (row_of_prediction rt p)
              \<and> filter (\<lambda>q. flag_id q = flagId change) (predictions st')
                  = [row_of_prediction rt p]
              \<and> filter (\<lambda>q. flag_id q \<noteq> flagId change) (predictions st')
                  = filter (\<lambda>q. flag_id q \<noteq> flagId change) (predictions st)
              \<and> flag_id (row_of_prediction rt p) = flagId change
              \<and> flag_name (row_of_prediction rt p) = flagName p
              \<and> generated_at (row_of_prediction rt p) = generatedAt p
              \<and> predicted_impact (row_of_prediction rt p)
                  = JSON_stringify rt (predictedImpact p)
              \<and> recommendations_text (row_of_prediction rt p)
                  = JSON_stringify rt (recommendations p)
              \<and> (\<forall>l. riskLevel p = JStr l \<longrightarrow>
                      risk_level (row_of_prediction rt p) = SqlText l)
              \<and> (\<forall>x. riskScore p = JNum x \<longrightarrow>
                      risk_score (row_of_prediction rt p) = SqlNum x)
              \<and> (\<forall>t. reasoning p = JStr t \<longrightarrow>
                      reasoning_text (row_of_prediction rt p) = SqlText t)
              \<and> (\<forall>c. confidence p = JNum c \<longrightarrow>
                      confidence_value (row_of_prediction rt p) = SqlNum c)
              \<and> (\<forall>v. (\<forall>l. riskLevel p \<noteq> JStr l) \<and> riskLevel p = v \<longrightarrow>
                      risk_level (row_of_prediction rt p) = SQL_text rt v)
              \<and> (\<forall>v. (\<forall>x. riskScore p \<noteq> JNum x) \<and> riskScore p = v \<longrightarrow>
                      risk_score (row_of_prediction rt p) = SQL_real rt v)))"
proof -
  have rows: "stored_prediction (store_prediction rt st p) (flagId change)
            = Some (row_of_prediction rt p)
        \<and> filter (\<lambda>q. flag_id q = flagId change) (predictions (store_prediction rt st p))
            = [row_of_prediction rt p]
        \<and> filter (\<lambda>q. flag_id q \<noteq> flagId change) (predictions (store_prediction rt st p))
            = filter (\<lambda>q. flag_id q \<noteq> flagId change) (predictions st)"
    if "flagId p = flagId change" for p
    using stored_after_store [of rt st p] one_row_after_store [of p rt st]
      other_rows_after_store [of p rt st] that by simp
  have columns: "flag_name (row_of_prediction rt p) = flagName p
        \<and> generated_at (row_of_prediction rt p) = generatedAt p
        \<and> predicted_impact (row_of_prediction rt p) = JSON_stringify rt (predictedImpact p)
        \<and> recommendations_text (row_of_prediction rt p) = JSON_stringify rt (recommendations p)"
    for p
    by (simp add: row_of_prediction_def)
  have other: "((\<forall>l. riskLevel p \<noteq> JStr l) \<longrightarrow>
                   risk_level (row_of_prediction rt p) = SQL_text rt (riskLevel p))
        \<and> ((\<forall>x. riskScore p \<noteq> JNum x) \<longrightarrow>
                   risk_score (row_of_prediction rt p) = SQL_real rt (riskScore p))" for p
    by (cases "riskLevel p"; cases "riskScore p")
       (simp_all add: row_of_prediction_def text_column_def real_column_def)
  have failing: "AI_run rt (prediction_request rt st change) = ai_rejected \<longrightarrow>
      generatePrediction rt st change now = (error_prediction change now, st)
      \<and> confidence (error_prediction change now) = JNum (3 / 10)
      \<and> recommendations (error_prediction change now)
          = JArr [JStr ''Manual review recommended due to analysis error'']
      \<and> reasoning (error_prediction change now) = JStr ''Automated analysis unavailable''"
    by (simp add: generatePrediction_rejected error_prediction_def)
  have answering: "case generatePrediction rt st change now of
           (p, st') \<Rightarrow>
              stored_prediction st' (flagId change) = Some (row_of_prediction rt p)
              \<and> filter (\<lambda>q. flag_id q = flagId change) (predictions st')
                  = [row_of_prediction rt p]
              \<and> filter (\<lambda>q. flag_id q \<noteq> flagId change) (predictions st')
                  = filter (\<lambda>q. flag_id q \<noteq> flagId change) (predictions st)
              \<and> flag_id (row_of_prediction rt p) = flagId change
              \<and> flag_name (row_of_prediction rt p) = flagName p
              \<and> generated_at (row_of_prediction rt p) = generatedAt p
              \<and> predicted_impact (row_of_prediction rt p)
                  = JSON_stringify rt (predictedImpact p)
              \<and> recommendations_text (row_of_prediction rt p)
                  = JSON_stringify rt (recommendations p)
              \<and> (\<forall>l. riskLevel p = JStr l \<longrightarrow>
                      risk_level (row_of_prediction rt p) = SqlText l)
              \<and> (\<forall>x. riskScore p = JNum x \<longrightarrow>
                      risk_score (row_of_prediction rt p) = SqlNum x)
              \<and> (\<forall>t. reasoning p = JStr t \<longrightarrow>
                      reasoning_text (row_of_prediction rt p) = SqlText t)
              \<and> (\<forall>c. confidence p = JNum c \<longrightarrow>
                      confidence_value (row_of_prediction rt p) = SqlNum c)
              \<and> (\<forall>v. (\<forall>l. riskLevel p \<noteq> JStr l) \<and> riskLevel p = v \<longrightarrow>
                      risk_level (row_of_prediction rt p) = SQL_text rt v)
              \<and> (\<forall>v. (\<forall>x. riskScore p \<noteq> JNum x) \<and> riskScore p = v \<longrightarrow>
                      risk_score (row_of_prediction rt p) = SQL_real rt v)"
    if run: "AI_run rt (prediction_request rt st change) = ai_resolved r"
      and parsed: "parsedResponse rt (response_text r) \<noteq> JNull" for r
  proof -
    let ?p = "build_prediction change (parsedResponse rt (response_text r)) now"
    have result: "generatePrediction rt st change now = (?p, store_prediction rt st ?p)"
      using generatePrediction_resolved [OF run parsed] .
    have "flagId ?p = flagId change" by simp
    then show ?thesis
      unfolding result
      using rows [of ?p] columns [of ?p] other [of ?p] typed_fields_stored_as_given [of ?p _ rt]
      by auto
  qed
  show ?thesis
    apply (rule conjI)
     apply (rule failing)
    apply (intro allI impI)
    apply (erule conjE)
    apply (rule answering; assumption)
    done
qed

theorem C3_prediction_stored_unless_call_fails_witness:
  "AI_run failing_runtime (prediction_request failing_runtime with_prediction toggle) = ai_rejected
   \<and> generatePrediction failing_runtime with_prediction toggle ''2024-05-01T10:06:01.000Z''
       = (error_prediction toggle ''2024-05-01T10:06:01.000Z'', with_prediction)
   \<and> AI_run quoted_runtime (prediction_request quoted_runtime with_prediction toggle)
       = ai_resolved (Some quoted_text)
   \<and> parsedResponse quoted_runtime (response_text (Some quoted_text)) = quoted_object
   \<and> riskLevel (fst (generatePrediction quoted_runtime with_prediction toggle
                        ''2024-05-01T10:06:01.000Z'')) = JStr ''high''
   \<and> riskScore (fst (generatePrediction quoted_runtime with_prediction toggle
                        ''2024-05-01T10:06:01.000Z'')) = JStr ''80''
   \<and> confidence (fst (generatePrediction quoted_runtime with_prediction toggle
                         ''2024-05-01T10:06:01.000Z'')) = JNum (9 / 10)
   \<and> predictions
        (snd (generatePrediction quoted_runtime with_prediction toggle ''2024-05-01T10:06:01.000Z''))
       = [\<lparr>flag_id = ''F'', flag_name = ''new-checkout-flow'',
           risk_level = SqlText ''high'', risk_score = SqlNum 80,
           predicted_impact = [], recommendations_text = [],
           reasoning_text = SqlText [], confidence_value = SqlNum (9 / 10),
           generated_at = ''2024-05-01T10:06:01.000Z''\<rparr>]
   \<and> stored_prediction
        (snd (generatePrediction quoted_runtime with_prediction toggle ''2024-05-01T10:06:01.000Z''))
        ''F''
       = Some (row_of_prediction quoted_runtime
                 (fst (generatePrediction quoted_runtime with_prediction toggle
                         ''2024-05-01T10:06:01.000Z'')))"
proof -
  let ?now = "''2024-05-01T10:06:01.000Z''"
  have failing:
    "AI_run failing_runtime (prediction_request failing_runtime with_prediction toggle)
       = ai_rejected"
    by (simp add: failing_runtime_def no_answer_def)
  have quoted: "AI_run quoted_runtime (prediction_request quoted_runtime with_prediction toggle)
                 = ai_resolved (Some quoted_text)"
    by (simp add: quoted_runtime_def quoted_answer_def)
  have parsed: "parsedResponse quoted_runtime (response_text (Some quoted_text)) = quoted_object"
    by (simp add: parsedResponse_def response_text_def str_or_def jsonMatch_def
        quoted_runtime_def parse_quoted_def quoted_text_def)
  have not_null: "parsedResponse quoted_runtime (response_text (Some quoted_text)) \<noteq> JNull"
    by (simp add: parsed quoted_object_def)
  have result: "generatePrediction quoted_runtime with_prediction toggle ?now =
      (build_prediction toggle quoted_object ?now,
       store_prediction quoted_runtime with_prediction (build_prediction toggle quoted_object ?now))"
    using generatePrediction_resolved [OF quoted not_null, of ?now] by (simp add: parsed)
  have fields: "riskLevel (build_prediction toggle quoted_object ?now) = JStr ''high''"
    "riskScore (build_prediction toggle quoted_object ?now) = JStr ''80''"
    "confidence (build_prediction toggle quoted_object ?now) = JNum (9 / 10)"
    by (simp_all add: build_prediction_def quoted_object_def)
  have rows: "predictions
        (store_prediction quoted_runtime with_prediction (build_prediction toggle quoted_object ?now))
       = [\<lparr>flag_id = ''F'', flag_name = ''new-checkout-flow'',
           risk_level = SqlText ''high'', risk_score = SqlNum 80,
           predicted_impact = [], recommendations_text = [],
           reasoning_text = SqlText [], confidence_value = SqlNum (9 / 10),
           generated_at = ''2024-05-01T10:06:01.000Z''\<rparr>]"
    by (simp add: store_prediction_def row_of_prediction_def text_column_def real_column_def
        build_prediction_def quoted_object_def quoted_runtime_def numeric_text_def any_text_def
        with_prediction_def empty_state_def old_row_def toggle_def)
  have flag: "flagId toggle = ''F''"
    by (simp add: toggle_def)
  from C3_prediction_stored_unless_call_fails [of failing_runtime with_prediction toggle ?now]
    failing
  have rejected: "generatePrediction failing_runtime with_prediction toggle ?now
                    = (error_prediction toggle ?now, with_prediction)"
    by blast
  from C3_prediction_stored_unless_call_fails [of quoted_runtime with_prediction toggle ?now]
    quoted not_null
  have "case generatePrediction quoted_runtime with_prediction toggle ?now of
          (p, st') \<Rightarrow> stored_prediction st' (flagId toggle)
                        = Some (row_of_prediction quoted_runtime p)"
    by (auto simp: case_prod_beta)
  then have stored:
    "stored_prediction (snd (generatePrediction quoted_runtime with_prediction toggle ?now)) ''F''
       = Some (row_of_prediction quoted_runtime
                 (fst (generatePrediction quoted_runtime with_prediction toggle ?now)))"
    by (simp add: case_prod_beta flag)
  have returned:
    "fst (generatePrediction quoted_runtime with_prediction toggle ?now)
       = build_prediction toggle quoted_object ?now"
    "snd (generatePrediction quoted_runtime with_prediction toggle ?now)
       = store_prediction quoted_runtime with_prediction
           (build_prediction toggle quoted_object ?now)"
    by (simp_all add: result)
  show ?thesis
    using failing rejected quoted parsed fields rows stored
    unfolding returned by blast
qed

text \<open>
  A risk score and a confidence of the parsed response that JavaScript takes for
  true, in or out of range, are the risk score and the confidence of the prediction.
\<close>

lemma truthy_values_kept:
  assumes "get parsed ''riskScore'' = Some s" and "truthy s"
    and "get parsed ''confidence'' = Some c" and "truthy c"
  shows "riskScore (build_prediction change parsed now) = s
         \<and> confidence (build_prediction change parsed now) = c"
  using assms by (simp add: build_prediction_def)

text \<open>
  C4 at the value 0. The system instruction of \<^verbatim>\<open>generatePrediction\<close> asks the
  model for a risk score in 0-100 and a confidence in 0-1, and the model answers with
  a well-formed object whose risk score and confidence are 0. The defaults
  \<^verbatim>\<open>parsedResponse.riskScore || 50\<close> and \<^verbatim>\<open>parsedResponse.confidence || 0.7\<close>
  take 0 for an absent value: the prediction has risk score 50 and confidence 0.7.
\<close>

theorem C4_zero_score_and_confidence_replaced:
  "jsonMatch zero_text = Some zero_text
   \<and> parsedResponse zero_runtime zero_text = zero_object
   \<and> get zero_object ''riskScore'' = Some (JNum 0)
   \<and> get zero_object ''confidence'' = Some (JNum 0)
   \<and> riskLevel (fst (generatePrediction zero_runtime empty_state toggle
                        ''2024-05-01T10:06:01.000Z'')) = JStr ''low''
   \<and> riskScore (fst (generatePrediction zero_runtime empty_state toggle
                        ''2024-05-01T10:06:01.000Z'')) = JNum 50
   \<and> confidence (fst (generatePrediction zero_runtime empty_state toggle
                         ''2024-05-01T10:06:01.000Z'')) = JNum (7 / 10)"
  by (simp add: generatePrediction_def zero_runtime_def zero_answer_def parse_zero_def
      zero_text_def zero_object_def response_text_def str_or_def parsedResponse_def jsonMatch_def
      build_prediction_def Let_def)

lemma toFixed_2_zero: "toFixed 2 (Finite 0) = ''0.00''"
  by code_simp

text \<open>
  C8. For an empty set of historical metrics \<^verbatim>\<open>buildPredictionPrompt\<close> takes 0
  for the mean error rate and for the mean P50 latency, without dividing, and prints
  both as 0.00; the number of data points and the request total are 0. The prompt of
  \<^verbatim>\<open>generatePrediction\<close> has these values whenever the flag has no metrics row.
\<close>

theorem C8_empty_history_averages:
  "avgErrorRate [] = Finite 0
   \<and> avgLatency [] = Finite 0
   \<and> prompt_avgErrorRate (buildPredictionPrompt rt change [] recentChanges) = ''0.00''
   \<and> prompt_avgLatency (buildPredictionPrompt rt change [] recentChanges) = ''0.00''
   \<and> prompt_dataPoints (buildPredictionPrompt rt change [] recentChanges) = 0
   \<and> prompt_totalRequests (buildPredictionPrompt rt change [] recentChanges) = Finite 0
   \<and> (filter (\<lambda>m. flag_id m = flagId change) (impact_metrics st) = [] \<longrightarrow>
        prompt_avgErrorRate (prediction_request rt st change) = ''0.00''
        \<and> prompt_avgLatency (prediction_request rt st change) = ''0.00'')"
  by (simp add: avgErrorRate_def avgLatency_def buildPredictionPrompt_def toFixed_2_zero
      sum_prop_def prediction_request_def select_metrics_def order_by_desc_def
      del: toFixed.simps)

theorem C8_empty_history_averages_witness:
  "filter (\<lambda>m. flag_id m = flagId toggle) (impact_metrics empty_state) = []
   \<and> prompt_avgErrorRate (prediction_request prose_runtime empty_state toggle) = ''0.00''
   \<and> prompt_avgLatency (prediction_request prose_runtime empty_state toggle) = ''0.00''"
  using C8_empty_history_averages [of prose_runtime toggle "[]" empty_state]
  by (simp add: empty_state_def)

section \<open>The anomaly detector: what a scan emits\<close>

subsection \<open>The rules, given the averages\<close>

lemma error_rule_NaN: "error_spike_rule NaN b = None"
  by (simp add: error_spike_rule_def)

lemma latency_rule_NaN: "latency_spike_rule NaN b = None"
  by (simp add: latency_spike_rule_def)

subsection \<open>The averages that the detector computes\<close>

text \<open>
  The rows come from \<^verbatim>\<open>SELECT * FROM impact_metrics\<close>: their properties are
  \<^verbatim>\<open>error_rate\<close> and \<^verbatim>\<open>latency_p50\<close>. The detector reads
  \<^verbatim>\<open>m.errorRate\<close> and \<^verbatim>\<open>m.latencyP50\<close>, which no row has, so every sum over
  at least one row is \<^verbatim>\<open>0 + undefined\<close>, that is NaN, and so is every average.
\<close>

lemma errorRate_undefined: "metrics_prop m ''errorRate'' = None"
  by (simp add: metrics_prop_def)

lemma latencyP50_undefined: "metrics_prop m ''latencyP50'' = None"
  by (simp add: metrics_prop_def)

lemma foldl_NaN: "foldl (\<lambda>sum m. NaN) s rows = (if rows = [] then s else NaN)"
  by (induction rows arbitrary: s) auto

lemma sum_prop_undefined:
  assumes "\<And>m. metrics_prop m p = None"
  shows "sum_prop p rows = (if rows = [] then Finite 0 else NaN)"
  by (simp add: sum_prop_def assms foldl_NaN)

lemma mean_errorRate: "rows \<noteq> [] \<Longrightarrow> mean_prop ''errorRate'' rows = NaN"
  by (simp add: mean_prop_def sum_prop_undefined [OF errorRate_undefined])

lemma mean_latencyP50: "rows \<noteq> [] \<Longrightarrow> mean_prop ''latencyP50'' rows = NaN"
  by (simp add: mean_prop_def sum_prop_undefined [OF latencyP50_undefined])

text \<open>No comparison with NaN holds: the detector creates no anomaly, whatever is stored.\<close>

lemma detectAnomalies_never_fires: "detectAnomalies st fid e l = st"
proof -
  let ?rows = "select_metrics st fid 50"
  show ?thesis
  proof (cases "length ?rows < 5")
    case True
    then show ?thesis by (simp add: detectAnomalies_def)
  next
    case False
    then have "take 5 ?rows \<noteq> []" by auto
    then have "mean_prop ''errorRate'' (take 5 ?rows) = NaN"
      and "mean_prop ''latencyP50'' (take 5 ?rows) = NaN"
      by (simp_all add: mean_errorRate mean_latencyP50)
    then show ?thesis
      by (simp add: detectAnomalies_def Let_def error_rule_NaN latency_rule_NaN)
  qed
qed

text \<open>
  C2, at the input of the specification: a baseline mean error rate of 1.0 and a
  recent mean of 2.0, a ratio of exactly 2.0, which are the means of the column
  \<^verbatim>\<open>error_rate\<close> over the oldest and over the five newest samples. The means
  that the scan computes, from \<^verbatim>\<open>m.errorRate\<close>, are NaN: it creates no anomaly
  and leaves the state as it was. The comparison that decides the severity,
  \<^verbatim>\<open>avgRecentError > avgBaselineError * 2\<close>, is strict: given the means 2.0 and
  1.0 it selects warning.
\<close>

theorem C2_ratio_two_no_anomaly:
  "map error_rate (select_metrics ratio_two_samples ''F'' 50) = [2, 2, 2, 2, 2, 1]
   \<and> mean_prop ''error_rate'' (take 5 (select_metrics ratio_two_samples ''F'' 50)) = Finite 2
   \<and> mean_prop ''error_rate'' (drop 5 (select_metrics ratio_two_samples ''F'' 50)) = Finite 1
   \<and> mean_prop ''errorRate'' (take 5 (select_metrics ratio_two_samples ''F'' 50)) = NaN
   \<and> mean_prop ''errorRate'' (drop 5 (select_metrics ratio_two_samples ''F'' 50)) = NaN
   \<and> detectAnomalies ratio_two_samples ''F'' (''a-1'', ''2024-05-01T10:05:01.000Z'')
        (''a-2'', ''2024-05-01T10:05:01.000Z'') = ratio_two_samples
   \<and> anomalies ratio_two_samples = []
   \<and> broadcasts ratio_two_samples = []
   \<and> error_spike_rule (Finite 2) (Finite 1)
       = Some (warning, ''Error rate increased by 100.0% since flag change'')"
proof -
  have rows: "map error_rate (select_metrics ratio_two_samples ''F'' 50) = [2, 2, 2, 2, 2, 1]"
    by code_simp
  have "map error_rate (take 5 (select_metrics ratio_two_samples ''F'' 50)) = [2, 2, 2, 2, 2]"
    and "map error_rate (drop 5 (select_metrics ratio_two_samples ''F'' 50)) = [1]"
    by (simp_all add: rows flip: take_map drop_map)
  then have "take 5 (select_metrics ratio_two_samples ''F'' 50) \<noteq> []"
    and "drop 5 (select_metrics ratio_two_samples ''F'' 50) \<noteq> []"
    by auto
  then have "mean_prop ''errorRate'' (take 5 (select_metrics ratio_two_samples ''F'' 50)) = NaN"
    and "mean_prop ''errorRate'' (drop 5 (select_metrics ratio_two_samples ''F'' 50)) = NaN"
    by (simp_all add: mean_errorRate)
  moreover have
    "mean_prop ''error_rate'' (take 5 (select_metrics ratio_two_samples ''F'' 50)) = Finite 2"
    by code_simp
  moreover have
    "mean_prop ''error_rate'' (drop 5 (select_metrics ratio_two_samples ''F'' 50)) = Finite 1"
    by code_simp
  moreover have "error_spike_rule (Finite 2) (Finite 1)
       = Some (warning, ''Error rate increased by 100.0% since flag change'')"
    by code_simp
  moreover have "anomalies ratio_two_samples = []" and "broadcasts ratio_two_samples = []"
    by (simp_all add: ratio_two_samples_def empty_state_def)
  ultimately show ?thesis
    using rows detectAnomalies_never_fires by simp
qed

text \<open>
  C5, at the input of the specification: six samples of \<open>F\<close> with error rates
  1, 1, 1, 1, 1, 5 from the oldest to the newest. The scan partitions them as
  specified (the five newest are recent, the oldest is the baseline), but both mean
  error rates that it computes are NaN and it leaves the state as it was, with no
  anomaly. Read under the name of the column, \<^verbatim>\<open>error_rate\<close>, the means are
  the specified 1.8 and 1.0, and the error rule applied to them gives the specified
  warning, with an increase of 80.0 percent in its message.
\<close>

theorem C5_six_samples_no_anomaly:
  "map error_rate (select_metrics six_samples ''F'' 50) = [5, 1, 1, 1, 1, 1]
   \<and> map error_rate (take 5 (select_metrics six_samples ''F'' 50)) = [5, 1, 1, 1, 1]
   \<and> map error_rate (drop 5 (select_metrics six_samples ''F'' 50)) = [1]
   \<and> mean_prop ''errorRate'' (take 5 (select_metrics six_samples ''F'' 50)) = NaN
   \<and> mean_prop ''errorRate'' (drop 5 (select_metrics six_samples ''F'' 50)) = NaN
   \<and> mean_prop ''error_rate'' (take 5 (select_metrics six_samples ''F'' 50)) = Finite (9 / 5)
   \<and> mean_prop ''error_rate'' (drop 5 (select_metrics six_samples ''F'' 50)) = Finite 1
   \<and> detectAnomalies six_samples ''F'' (''a-1'', ''2024-05-01T10:05:01.000Z'')
        (''a-2'', ''2024-05-01T10:05:01.000Z'') = six_samples
   \<and> anomalies six_samples = []
   \<and> error_spike_rule (Finite (9 / 5)) (Finite 1)
       = Some (warning, ''Error rate increased by 80.0% since flag change'')"
proof -
  have rows: "map error_rate (select_metrics six_samples ''F'' 50) = [5, 1, 1, 1, 1, 1]"
    by code_simp
  have "map error_rate (take 5 (select_metrics six_samples ''F'' 50)) = [5, 1, 1, 1, 1]"
    and "map error_rate (drop 5 (select_metrics six_samples ''F'' 50)) = [1]"
    by (simp_all add: rows flip: take_map drop_map)
  moreover from this have "take 5 (select_metrics six_samples ''F'' 50) \<noteq> []"
    and "drop 5 (select_metrics six_samples ''F'' 50) \<noteq> []"
    by auto
  then have "mean_prop ''errorRate'' (take 5 (select_metrics six_samples ''F'' 50)) = NaN"
    and "mean_prop ''errorRate'' (drop 5 (select_metrics six_samples ''F'' 50)) = NaN"
    by (simp_all add: mean_errorRate)
  moreover have "error_spike_rule (Finite (9 / 5)) (Finite 1)
       = Some (warning, ''Error rate increased by 80.0% since flag change'')"
    by code_simp
  moreover have "anomalies six_samples = []"
    by (simp add: six_samples_def empty_state_def)
  moreover have
    "mean_prop ''error_rate'' (take 5 (select_metrics six_samples ''F'' 50)) = Finite (9 / 5)"
    by code_simp
  moreover have
    "mean_prop ''error_rate'' (drop 5 (select_metrics six_samples ''F'' 50)) = Finite 1"
    by code_simp
  ultimately show ?thesis
    using rows detectAnomalies_never_fires by simp
qed

text \<open>
  C6, at the input of the specification: a baseline mean P50 latency of 50 and a
  recent mean of 160, which are the means of the column \<^verbatim>\<open>latency_p50\<close>. The
  latency rule applied to these means gives the specified critical anomaly (and none
  for a recent mean of 95), but the means that the scan computes, from
  \<^verbatim>\<open>m.latencyP50\<close>, are NaN and it creates no anomaly.
\<close>

theorem C6_latency_spike_not_emitted:
  "map latency_p50 (select_metrics latency_samples ''F'' 50) = [160, 160, 160, 160, 160, 50]
   \<and> mean_prop ''latencyP50'' (take 5 (select_metrics latency_samples ''F'' 50)) = NaN
   \<and> mean_prop ''latencyP50'' (drop 5 (select_metrics latency_samples ''F'' 50)) = NaN
   \<and> mean_prop ''latency_p50'' (take 5 (select_metrics latency_samples ''F'' 50)) = Finite 160
   \<and> mean_prop ''latency_p50'' (drop 5 (select_metrics latency_samples ''F'' 50)) = Finite 50
   \<and> detectAnomalies latency_samples ''F'' (''a-1'', ''2024-05-01T10:05:01.000Z'')
        (''a-2'', ''2024-05-01T10:05:01.000Z'') = latency_samples
   \<and> anomalies latency_samples = []
   \<and> latency_spike_rule (Finite 160) (Finite 50)
       = Some (critical, ''P50 latency increased by 220.0%'')
   \<and> latency_spike_rule (Finite 95) (Finite 50) = None"
proof -
  have rows:
    "map latency_p50 (select_metrics latency_samples ''F'' 50) = [160, 160, 160, 160, 160, 50]"
    by code_simp
  have "map latency_p50 (take 5 (select_metrics latency_samples ''F'' 50))
          = [160, 160, 160, 160, 160]"
    and "map latency_p50 (drop 5 (select_metrics latency_samples ''F'' 50)) = [50]"
    by (simp_all add: rows flip: take_map drop_map)
  then have "take 5 (select_metrics latency_samples ''F'' 50) \<noteq> []"
    and "drop 5 (select_metrics latency_samples ''F'' 50) \<noteq> []"
    by auto
  then have "mean_prop ''latencyP50'' (take 5 (select_metrics latency_samples ''F'' 50)) = NaN"
    and "mean_prop ''latencyP50'' (drop 5 (select_metrics latency_samples ''F'' 50)) = NaN"
    by (simp_all add: mean_latencyP50)
  moreover have "latency_spike_rule (Finite 160) (Finite 50)
       = Some (critical, ''P50 latency increased by 220.0%'')"
    by code_simp
  moreover have "latency_spike_rule (Finite 95) (Finite 50) = None"
    by (simp add: latency_spike_rule_def)
  moreover have "anomalies latency_samples = []"
    by (simp add: latency_samples_def empty_state_def)
  moreover have
    "mean_prop ''latency_p50'' (take 5 (select_metrics latency_samples ''F'' 50)) = Finite 160"
    by code_simp
  moreover have
    "mean_prop ''latency_p50'' (drop 5 (select_metrics latency_samples ''F'' 50)) = Finite 50"
    by code_simp
  ultimately show ?thesis
    using rows detectAnomalies_never_fires by simp
qed

text \<open>
  C7. For a flag with fewer than 5 stored samples, and for a flag with exactly 5 (an
  empty baseline), \<^verbatim>\<open>detectAnomalies\<close> returns at one of its two guards: the state
  after the scan is the state before it, so no anomaly is inserted, none is
  broadcast, and the scan has no failing outcome.
\<close>

theorem C7_short_history_noop:
  assumes "length (filter (\<lambda>m. flag_id m = fid) (impact_metrics st)) \<le> 5"
  shows "detectAnomalies st fid e l = st"
proof -
  let ?rows = "select_metrics st fid 50"
  have short: "length ?rows \<le> 5"
    using assms by (simp add: select_metrics_def)
  show ?thesis
  proof (cases "length ?rows < 5")
    case True
    then show ?thesis by (simp add: detectAnomalies_def)
  next
    case False
    with short have "length (drop 5 ?rows) = 0" by simp
    then show ?thesis by (simp add: detectAnomalies_def Let_def)
  qed
qed

theorem C7_short_history_noop_witness:
  "length (filter (\<lambda>m. flag_id m = ''F'') (impact_metrics five_samples)) = 5
   \<and> detectAnomalies five_samples ''F'' (''a-1'', ''2024-05-01T10:04:01.000Z'')
        (''a-2'', ''2024-05-01T10:04:01.000Z'') = five_samples
   \<and> length (filter (\<lambda>m. flag_id m = ''F'') (impact_metrics empty_state)) = 0
   \<and> detectAnomalies empty_state ''F'' (''a-1'', ''2024-05-01T10:04:01.000Z'')
        (''a-2'', ''2024-05-01T10:04:01.000Z'') = empty_state"
proof -
  have five: "length (filter (\<lambda>m. flag_id m = ''F'') (impact_metrics five_samples)) = 5"
    by (simp add: five_samples_def empty_state_def sample_def)
  have none: "length (filter (\<lambda>m. flag_id m = ''F'') (impact_metrics empty_state)) = 0"
    by (simp add: empty_state_def)
  show ?thesis
    using C7_short_history_noop [of "''F''" five_samples] C7_short_history_noop [of "''F''" empty_state]
      five none
    by simp
qed

section \<open>The anomaly listing\<close>

text \<open>
  C9. \<^verbatim>\<open>getRecentAnomalies\<close>, which is the body of \<^verbatim>\<open>GET /anomalies\<close> and the
  list in the reply to \<^verbatim>\<open>subscribe_anomalies\<close>, returns only stored anomalies that
  are not resolved, at most 20 of them, newest first by detection date; an
  unresolved anomaly that is left out is left out because 20 anomalies that are
  at least as new fill the list.
\<close>

theorem C9_listing_unresolved_newest_20:
  "getAnomalies st = getRecentAnomalies st
   \<and> subscribe_anomalies st = subscribed ''anomalies'' (getRecentAnomalies st)
   \<and> (\<forall>a \<in> set (getRecentAnomalies st). a \<in> set (anomalies st) \<and> \<not> resolved a)
   \<and> length (getRecentAnomalies st) \<le> 20
   \<and> sorted_wrt (\<lambda>a b. detectedAt b \<le> detectedAt a) (getRecentAnomalies st)
   \<and> (\<forall>a \<in> set (anomalies st). \<not> resolved a \<and> a \<notin> set (getRecentAnomalies st) \<longrightarrow>
         length (getRecentAnomalies st) = 20
         \<and> (\<forall>b \<in> set (getRecentAnomalies st). detectedAt a \<le> detectedAt b))"
proof -
  let ?all = "order_by_desc detectedAt (filter (\<lambda>a. \<not> resolved a) (anomalies st))"
  have r: "getRecentAnomalies st = take 20 ?all"
    by (simp add: getRecentAnomalies_def)
  have srt: "sorted_wrt (\<lambda>a b. detectedAt b \<le> detectedAt a) (take 20 ?all @ drop 20 ?all)"
    using newest_first_order_by_desc [of detectedAt] by simp
  have 1: "\<forall>a \<in> set (take 20 ?all). a \<in> set (anomalies st) \<and> \<not> resolved a"
    by (auto dest: in_set_takeD)
  have 2: "length (take 20 ?all) \<le> 20" by simp
  have 3: "sorted_wrt (\<lambda>a b. detectedAt b \<le> detectedAt a) (take 20 ?all)"
    using srt unfolding sorted_wrt_append by blast
  have 4: "length (take 20 ?all) = 20
           \<and> (\<forall>b \<in> set (take 20 ?all). detectedAt a \<le> detectedAt b)"
    if a: "a \<in> set (anomalies st)" "\<not> resolved a" "a \<notin> set (take 20 ?all)" for a
  proof -
    from a have "a \<in> set ?all" by simp
    then have "a \<in> set (take 20 ?all) \<union> set (drop 20 ?all)"
      by (metis append_take_drop_id set_append)
    with a have d: "a \<in> set (drop 20 ?all)" by blast
    then have "drop 20 ?all \<noteq> []" by auto
    then have "length (take 20 ?all) = 20" by auto
    moreover have "\<forall>b \<in> set (take 20 ?all). detectedAt a \<le> detectedAt b"
      using srt d unfolding sorted_wrt_append by blast
    ultimately show ?thesis by blast
  qed
  show ?thesis
    unfolding r getAnomalies_def subscribe_anomalies_def using 1 2 3 4 by blast
qed

theorem C9_listing_unresolved_newest_20_witness:
  "spike 1 \<in> set (anomalies crowded) \<and> \<not> resolved (spike 1)
   \<and> spike 1 \<notin> set (getRecentAnomalies crowded)
   \<and> spike 5 \<in> set (anomalies crowded) \<and> resolved (spike 5)
   \<and> spike 5 \<notin> set (getRecentAnomalies crowded)
   \<and> length (getRecentAnomalies crowded) = 20
   \<and> spike 2 \<in> set (getRecentAnomalies crowded)
   \<and> spike 2 \<in> set (anomalies crowded) \<and> \<not> resolved (spike 2)
   \<and> detectedAt (spike 1) \<le> detectedAt (spike 2)
   \<and> sorted_wrt (\<lambda>a b. detectedAt b \<le> detectedAt a) (getRecentAnomalies crowded)"
proof -
  have 1: "spike 1 \<in> set (anomalies crowded)" by code_simp
  have 2: "\<not> resolved (spike 1)" by code_simp
  have 3: "spike 1 \<notin> set (getRecentAnomalies crowded)" by code_simp
  have 4: "spike 2 \<in> set (getRecentAnomalies crowded)" by code_simp
  have 5: "spike 5 \<in> set (anomalies crowded) \<and> resolved (spike 5)" by code_simp
  show ?thesis
    using C9_listing_unresolved_newest_20 [of crowded] 1 2 3 4 5 by blast
qed

section \<open>The change log\<close>

lemma generatePrediction_frame:
  "flag_changes (snd (generatePrediction rt st change now)) = flag_changes st
   \<and> feature_flags (snd (generatePrediction rt st change now)) = feature_flags st
   \<and> impact_metrics (snd (generatePrediction rt st change now)) = impact_metrics st
   \<and> anomalies (snd (generatePrediction rt st change now)) = anomalies st
   \<and> broadcasts (snd (generatePrediction rt st change now)) = broadcasts st"
  by (simp add: generatePrediction_def Let_def store_prediction_def split: ai_outcome.splits)

lemma detectAnomalies_frame:
  "flag_changes (detectAnomalies st fid e l) = flag_changes st
   \<and> feature_flags (detectAnomalies st fid e l) = feature_flags st
   \<and> impact_metrics (detectAnomalies st fid e l) = impact_metrics st
   \<and> predictions (detectAnomalies st fid e l) = predictions st"
  by (simp add: detectAnomalies_def Let_def createAnomaly_def split: option.splits prod.splits)

lemma analyse_frame:
  "flag_changes (snd (analyse rt st change fid now e l)) = flag_changes st
   \<and> feature_flags (snd (analyse rt st change fid now e l)) = feature_flags st
   \<and> impact_metrics (snd (analyse rt st change fid now e l)) = impact_metrics st"
  using generatePrediction_frame [of rt st change now]
  by (simp add: analyse_def detectAnomalies_frame case_prod_beta)

text \<open>
  C10. \<^verbatim>\<open>analyzeFlag\<close> leaves the change log as it was, for every request, and
  with it the flags and the metrics. For a flag that exists it builds a change of
  type "enabled" from the stored row and answers with the prediction of the
  pipeline (prediction, then scan for anomalies) run on that change, which is
  inserted nowhere. \<^verbatim>\<open>recordChange\<close>, when the identifier of the change is not
  yet in the log, first appends the completed change and then runs the same
  pipeline on the state that has it; the log afterwards is the old log followed by
  that change.
\<close>

theorem C10_analyzeFlag_leaves_change_log:
  "flag_changes (snd (analyzeFlag rt st fid f now e l)) = flag_changes st
   \<and> feature_flags (snd (analyzeFlag rt st fid f now e l)) = feature_flags st
   \<and> impact_metrics (snd (analyzeFlag rt st fid f now e l)) = impact_metrics st
   \<and> (\<forall>flag. select_flag st fid = Some flag \<longrightarrow>
         changeType (synthetic_change flag f) = ''enabled''
         \<and> analyzeFlag rt st fid f now e l =
             (analyzed flag (fst (analyse rt st (synthetic_change flag f) fid now e l)),
              snd (analyse rt st (synthetic_change flag f) fid now e l)))
   \<and> (change_id (complete_change change f) \<notin> set (map change_id (flag_changes st)) \<longrightarrow>
         (let c = complete_change change f;
              r = analyse rt (st\<lparr>flag_changes := flag_changes st @ [c]\<rparr>) c (flagId c) now e l
          in recordChange rt st change f now e l
               = Inr ((c, fst r), broadcast (snd r) (flag_changed c (fst r)))
             \<and> flag_changes (broadcast (snd r) (flag_changed c (fst r)))
                 = flag_changes st @ [c]))"
proof -
  have frame: "flag_changes (snd (analyzeFlag rt st fid f now e l)) = flag_changes st
   \<and> feature_flags (snd (analyzeFlag rt st fid f now e l)) = feature_flags st
   \<and> impact_metrics (snd (analyzeFlag rt st fid f now e l)) = impact_metrics st"
  proof (cases "select_flag st fid")
    case None
    then show ?thesis by (simp add: analyzeFlag_def)
  next
    case (Some flag)
    then show ?thesis
      using analyse_frame [of rt st "synthetic_change flag f" fid now e l]
      by (simp add: analyzeFlag_def case_prod_beta)
  qed
  have transient: "changeType (synthetic_change flag f) = ''enabled''
         \<and> analyzeFlag rt st fid f now e l =
             (analyzed flag (fst (analyse rt st (synthetic_change flag f) fid now e l)),
              snd (analyse rt st (synthetic_change flag f) fid now e l))"
    if "select_flag st fid = Some flag" for flag
    using that by (simp add: analyzeFlag_def synthetic_change_def case_prod_beta)
  have live: "recordChange rt st change f now e l
               = Inr ((c, fst r), broadcast (snd r) (flag_changed c (fst r)))
             \<and> flag_changes (broadcast (snd r) (flag_changed c (fst r)))
                 = flag_changes st @ [c]"
    if "change_id (complete_change change f) \<notin> set (map change_id (flag_changes st))"
      and "c = complete_change change f"
      and "r = analyse rt (st\<lparr>flag_changes := flag_changes st @ [c]\<rparr>) c (flagId c) now e l"
    for c r
    using that
      analyse_frame [of rt "st\<lparr>flag_changes := flag_changes st @ [c]\<rparr>" c "flagId c" now e l]
    by (simp add: recordChange_def recordFlagChange_def Let_def broadcast_def case_prod_beta)
  show ?thesis
    using frame transient live unfolding Let_def by blast
qed

theorem C10_analyzeFlag_leaves_change_log_witness:
  "select_flag one_flag ''F'' = Some checkout_flag
   \<and> flag_changes (snd (analyzeFlag prose_runtime one_flag ''F''
                          (''c-2'', ''2024-05-01T10:07:00.000Z'') ''2024-05-01T10:07:01.000Z''
                          (''a-1'', ''2024-05-01T10:07:02.000Z'')
                          (''a-2'', ''2024-05-01T10:07:02.000Z''))) = [creation]
   \<and> complete_change toggle (''c-2'', ''2024-05-01T10:07:00.000Z'') = toggle
   \<and> change_id toggle \<notin> set (map change_id (flag_changes one_flag))
   \<and> (case recordChange prose_runtime one_flag toggle
              (''c-2'', ''2024-05-01T10:07:00.000Z'') ''2024-05-01T10:07:01.000Z''
              (''a-1'', ''2024-05-01T10:07:02.000Z'') (''a-2'', ''2024-05-01T10:07:02.000Z'') of
         Inl err \<Rightarrow> False
       | Inr r \<Rightarrow> fst (fst r) = toggle \<and> flag_changes (snd r) = [creation, toggle])"
proof -
  let ?f = "(''c-2'', ''2024-05-01T10:07:00.000Z'')"
  let ?now = "''2024-05-01T10:07:01.000Z''"
  let ?e = "(''a-1'', ''2024-05-01T10:07:02.000Z'')"
  let ?l = "(''a-2'', ''2024-05-01T10:07:02.000Z'')"
  have flag: "select_flag one_flag ''F'' = Some checkout_flag"
    by (simp add: select_flag_def one_flag_def empty_state_def checkout_flag_def)
  have log: "flag_changes one_flag = [creation]"
    by (simp add: one_flag_def empty_state_def)
  have complete: "complete_change toggle ?f = toggle"
    by (simp add: complete_change_def toggle_def str_or_def)
  have new: "change_id toggle \<notin> set (map change_id (flag_changes one_flag))"
    by (simp add: log toggle_def creation_def)
  note inst = C10_analyzeFlag_leaves_change_log
                [of prose_runtime one_flag "''F''" ?f ?now ?e ?l toggle]
  from inst have kept: "flag_changes (snd (analyzeFlag prose_runtime one_flag ''F'' ?f ?now ?e ?l))
                          = [creation]"
    by (simp only: log)
  from new have "change_id (complete_change toggle ?f) \<notin> set (map change_id (flag_changes one_flag))"
    by (simp add: complete)
  with inst have
    "let c = complete_change toggle ?f;
         r = analyse prose_runtime (one_flag\<lparr>flag_changes := flag_changes one_flag @ [c]\<rparr>) c
               (flagId c) ?now ?e ?l
     in recordChange prose_runtime one_flag toggle ?f ?now ?e ?l
          = Inr ((c, fst r), broadcast (snd r) (flag_changed c (fst r)))
        \<and> flag_changes (broadcast (snd r) (flag_changed c (fst r))) = flag_changes one_flag @ [c]"
    by blast
  then have live: "case recordChange prose_runtime one_flag toggle ?f ?now ?e ?l of
         Inl err \<Rightarrow> False
       | Inr r \<Rightarrow> fst (fst r) = toggle \<and> flag_changes (snd r) = [creation, toggle]"
    unfolding Let_def complete log by simp
  show ?thesis
    using flag kept complete new live by blast
qed

end
